theory Spec2Isabelle
  imports Complex_Main
begin

section \<open>Text helpers\<close>

text \<open>
  Python's \<^verbatim>\<open>str(n)\<close> for a non-negative integer and for any integer, as the f-strings of
  \<^verbatim>\<open>main.py\<close> use it for row numbers and question numbers.
\<close>

definition digit_char :: "nat \<Rightarrow> char" where
  "digit_char d = ''0123456789'' ! d"

fun str_nat :: "nat \<Rightarrow> string" where
  "str_nat n = (if n < 10 then [digit_char n] else str_nat (n div 10) @ [digit_char (n mod 10)])"

declare str_nat.simps [simp del]

definition str_int :: "int \<Rightarrow> string" where
  "str_int i = (if i < 0 then CHR ''-'' # str_nat (nat (- i)) else str_nat (nat i))"

text \<open>\<^verbatim>\<open>sep.join(xs)\<close>.\<close>

fun join :: "string \<Rightarrow> string list \<Rightarrow> string" where
  "join sep [] = []"
| "join sep [x] = x"
| "join sep (x # y # ys) = x @ sep @ join sep (y # ys)"

text \<open>\<^verbatim>\<open>s.replace(a, b)\<close> for single characters \<open>a\<close> and \<open>b\<close>.\<close>

definition replace_char :: "char \<Rightarrow> char \<Rightarrow> string \<Rightarrow> string" where
  "replace_char a b s = map (\<lambda>ch. if ch = a then b else ch) s"

text \<open>
  \<^verbatim>\<open>openpyxl.utils.get_column_letter\<close>: bijective base 26 over \<open>A..Z\<close>. The library raises
  \<^verbatim>\<open>ValueError\<close> outside \<open>1..18278\<close>; the engine calls it with the constants 3 and 4 only.
\<close>

definition letter_char :: "nat \<Rightarrow> char" where
  "letter_char k = ''ABCDEFGHIJKLMNOPQRSTUVWXYZ'' ! (k - 1)"

fun get_column_letter :: "nat \<Rightarrow> string" where
  "get_column_letter col_idx =
     (if col_idx = 0 then []
      else if col_idx mod 26 = 0
        then get_column_letter (col_idx div 26 - 1) @ [letter_char 26]
        else get_column_letter (col_idx div 26) @ [letter_char (col_idx mod 26)])"

declare get_column_letter.simps [simp del]

section \<open>Question model\<close>

text \<open>
  The pydantic models of \<^verbatim>\<open>main.py\<close> as records; an \<^verbatim>\<open>Optional\<close> field is an \<open>option\<close>,
  a float a rational. The type of a question stays a string, as in the source, which compares
  it with string literals.

  \<open>pyval\<close> is a value a worksheet cell can hold: the scalars a table row of type
  \<^verbatim>\<open>List[Any]\<close> may carry (\<^verbatim>\<open>None\<close> is \<open>None\<close> of \<open>pyval option\<close>), and \<open>PFormula\<close>, a formula
  kept as a syntax tree (the grading formulas below; the two reference formulas the engine
  writes are kept as the text the source builds). The library refuses any other value (a list,
  a dict) and text with control characters by raising an exception; such inputs are outside
  this model, which describes the builds that run to their end.
\<close>

datatype xl_expr =
    Num rat
  | CellRef string nat
  | ABS xl_expr
  | VALUE xl_expr
  | TEXT_at xl_expr
  | Minus xl_expr xl_expr
  | Times xl_expr xl_expr
  | LessEq xl_expr xl_expr
  | Equal xl_expr xl_expr
  | IF xl_expr xl_expr xl_expr

datatype pyval = PStr string | PInt int | PFloat rat | PBool bool | PFormula xl_expr

record DataTable =
  headers :: "string list"
  rows :: "pyval option list list"

record SubQuestion =
  part :: string
  sub_question :: string
  sub_answer :: string
  sub_tolerance :: "rat option"

record Question =
  qtype :: string
  question :: string
  answer :: "string option"
  options :: "string list option"
  tolerance :: "rat option"
  data_table :: "DataTable option"
  subquestions :: "SubQuestion list option"

text \<open>
  An entry of \<^verbatim>\<open>answer_cells\<close>: a dict with the keys \<^verbatim>\<open>question_id\<close>,
  \<^verbatim>\<open>cell_address\<close>, \<^verbatim>\<open>correct_answer\<close>, \<^verbatim>\<open>tolerance\<close> and, for simple questions only,
  \<^verbatim>\<open>type\<close>. \<open>rec_type = None\<close> is the dict without the key \<^verbatim>\<open>type\<close>.
\<close>

record AnswerRecord =
  question_id :: string
  cell_address :: string
  correct_answer :: "string option"
  rec_tolerance :: "rat option"
  rec_type :: "string option"

section \<open>Worksheets\<close>

datatype font = default_font | title_font | question_font | bold_font | small_font
datatype alignment = default_align | left_align | center_align | table_align
datatype border = no_border | thin_border
datatype fill = no_fill | table_fill | header_fill | white_fill | answer_fill

record cell =
  cell_value :: "pyval option"
  cell_font :: font
  cell_alignment :: alignment
  cell_border :: border
  cell_fill :: fill

record DataValidation =
  dv_type :: string
  formula1 :: string
  allow_blank :: bool
  sqref :: "(nat \<times> nat) list"

record worksheet =
  title :: string
  cells :: "nat \<times> nat \<rightharpoonup> cell"
  row_height :: "nat \<rightharpoonup> nat"
  column_width :: "string \<rightharpoonup> nat"
  data_validations :: "DataValidation list"
  sheet_state :: string
  protection_sheet :: bool

definition new_cell :: cell where
  "new_cell = \<lparr>cell_value = None, cell_font = default_font, cell_alignment = default_align,
     cell_border = no_border, cell_fill = no_fill\<rparr>"

definition new_sheet :: "string \<Rightarrow> worksheet" where
  "new_sheet t = \<lparr>title = t, cells = Map.empty, row_height = Map.empty,
     column_width = Map.empty, data_validations = [], sheet_state = ''visible'',
     protection_sheet = False\<rparr>"

text \<open>
  \<^verbatim>\<open>c = ws.cell(row=r, column=k, value=v)\<close> followed by the attribute assignments \<open>sty\<close> on
  \<^verbatim>\<open>c\<close>. The library creates the cell when the sheet has none there, and binds the value only
  when it is not \<^verbatim>\<open>None\<close>.
\<close>

definition cell_at :: "worksheet \<Rightarrow> nat \<times> nat \<Rightarrow> cell" where
  "cell_at ws p = (case cells ws p of None \<Rightarrow> new_cell | Some x \<Rightarrow> x)"

definition bind_value :: "pyval option \<Rightarrow> cell \<Rightarrow> cell" where
  "bind_value v c = (case v of None \<Rightarrow> c | Some x \<Rightarrow> c\<lparr>cell_value := Some x\<rparr>)"

definition ws_cell :: "worksheet \<Rightarrow> nat \<Rightarrow> nat \<Rightarrow> pyval option \<Rightarrow> (cell \<Rightarrow> cell) \<Rightarrow> worksheet" where
  "ws_cell ws r k v sty = ws\<lparr>cells := (cells ws)((r, k) \<mapsto> sty (bind_value v (cell_at ws (r, k))))\<rparr>"

text \<open>\<^verbatim>\<open>for col, v in enumerate(vs, start=k): ws.cell(row=r, column=col, value=v); ...\<close>\<close>

fun ws_cells :: "worksheet \<Rightarrow> nat \<Rightarrow> nat \<Rightarrow> pyval option list \<Rightarrow> (cell \<Rightarrow> cell) \<Rightarrow> worksheet" where
  "ws_cells ws r k [] sty = ws"
| "ws_cells ws r k (v # vs) sty = ws_cells (ws_cell ws r k v sty) r (Suc k) vs sty"

section \<open>The layout engine\<close>

record ExcelLayoutEngine =
  final_sheet :: worksheet
  solution_sheet :: worksheet
  current_row :: nat
  answer_cells :: "AnswerRecord list"

text \<open>
  \<^verbatim>\<open>__init__\<close> on a new workbook. The source keeps the workbook and leaves \<^verbatim>\<open>final_sheet\<close>
  and \<^verbatim>\<open>solution_sheet\<close> as \<^verbatim>\<open>None\<close> until \<^verbatim>\<open>setup_sheets\<close> assigns them; here
  \<open>final_sheet\<close> holds the workbook's active sheet from the start and \<open>solution_sheet\<close> an
  empty sheet that \<^verbatim>\<open>setup_sheets\<close> replaces. The rendering operations are meant for an
  engine after \<^verbatim>\<open>setup_sheets\<close>, as \<^verbatim>\<open>build_professional_workbook\<close> uses them.
\<close>

definition init :: ExcelLayoutEngine where
  "init = \<lparr>final_sheet = new_sheet ''Sheet'', solution_sheet = new_sheet ''Sheet1'',
     current_row = 2, answer_cells = []\<rparr>"

definition set_widths :: "worksheet \<Rightarrow> worksheet" where
  "set_widths ws = ws\<lparr>column_width := (column_width ws)
     (''A'' \<mapsto> 3, ''B'' \<mapsto> 50, ''C'' \<mapsto> 15, ''D'' \<mapsto> 15, ''E'' \<mapsto> 15, ''F'' \<mapsto> 15)\<rparr>"

definition white_row :: "worksheet \<Rightarrow> nat \<Rightarrow> worksheet" where
  "white_row ws r = foldl (\<lambda>w k. ws_cell w r k None (\<lambda>c. c\<lparr>cell_fill := white_fill\<rparr>)) ws [1..<20]"

definition header_cell :: "cell \<Rightarrow> cell" where
  "header_cell c = c\<lparr>cell_font := bold_font, cell_fill := header_fill,
     cell_border := thin_border, cell_alignment := center_align\<rparr>"

definition setup_sheets :: "ExcelLayoutEngine \<Rightarrow> ExcelLayoutEngine" where
  "setup_sheets e =
     (let student = set_widths ((final_sheet e)\<lparr>title := ''Student''\<rparr>);
          solution = set_widths (new_sheet ''Solution'');
          student = foldl white_row student [1..<100];
          student = ws_cell student 1 2 (Some (PStr ''Exam''))
             (\<lambda>c. c\<lparr>cell_font := title_font, cell_alignment := center_align,
                     cell_fill := white_fill\<rparr>);
          student = student\<lparr>row_height := (row_height student)(1 \<mapsto> 30)\<rparr>;
          solution = ws_cells solution 1 9
             (map (Some \<circ> PStr) [''Question'', ''Student'', ''Solution'', ''Points''])
             header_cell
      in e\<lparr>final_sheet := student, solution_sheet := solution\<rparr>)"

definition add_spacing :: "ExcelLayoutEngine \<Rightarrow> nat \<Rightarrow> ExcelLayoutEngine" where
  "add_spacing e n = e\<lparr>current_row := current_row e + n\<rparr>"

definition add_question_header :: "ExcelLayoutEngine \<Rightarrow> int \<Rightarrow> string \<Rightarrow> ExcelLayoutEngine \<times> nat" where
  "add_question_header e question_num question_text =
     (let e = add_spacing e 1;
          ws = ws_cell (final_sheet e) (current_row e) 2
             (Some (PStr (str_int question_num @ ''. '' @ question_text)))
             (\<lambda>c. c\<lparr>cell_font := bold_font, cell_alignment := left_align,
                     cell_fill := white_fill\<rparr>);
          ws = ws\<lparr>row_height := (row_height ws)(current_row e \<mapsto> 20)\<rparr>;
          e = e\<lparr>final_sheet := ws, current_row := current_row e + 1\<rparr>
      in (e, current_row e - 1))"

definition table_cell :: "cell \<Rightarrow> cell" where
  "table_cell c = c\<lparr>cell_border := thin_border, cell_fill := table_fill,
     cell_alignment := center_align\<rparr>"

definition add_table_row :: "ExcelLayoutEngine \<Rightarrow> pyval option list \<Rightarrow> ExcelLayoutEngine" where
  "add_table_row e row_data =
     e\<lparr>final_sheet := ws_cells (final_sheet e) (current_row e) 3 row_data table_cell,
       current_row := current_row e + 1\<rparr>"

text \<open>
  \<^verbatim>\<open>add_data_table\<close>: the argument is \<open>None\<close> when the caller has no table
  (\<^verbatim>\<open>if not data_table: return\<close>; a model object itself is always truthy).
\<close>

fun add_data_table :: "ExcelLayoutEngine \<Rightarrow> DataTable option \<Rightarrow> ExcelLayoutEngine" where
  "add_data_table e None = e"
| "add_data_table e (Some dt) =
     (let e = add_spacing e 1;
          e = e\<lparr>final_sheet := ws_cells (final_sheet e) (current_row e) 3
                  (map (Some \<circ> PStr) (headers dt)) header_cell\<rparr>;
          e = e\<lparr>current_row := current_row e + 1\<rparr>;
          e = foldl add_table_row e (rows dt)
      in add_spacing e 1)"

definition input_cell :: "cell \<Rightarrow> cell" where
  "input_cell c = c\<lparr>cell_border := thin_border, cell_alignment := center_align,
     cell_fill := answer_fill\<rparr>"

definition add_subquestion :: "ExcelLayoutEngine \<Rightarrow> SubQuestion \<Rightarrow> int \<Rightarrow> ExcelLayoutEngine \<times> string" where
  "add_subquestion e sub_q question_num =
     (let sub_text = part sub_q @ ''. '' @ sub_question sub_q;
          ws = ws_cell (final_sheet e) (current_row e) 2 (Some (PStr sub_text))
             (\<lambda>c. c\<lparr>cell_font := question_font, cell_alignment := left_align,
                     cell_fill := white_fill\<rparr>);
          answer_col = 4;
          answer_cell_addr = get_column_letter answer_col @ str_nat (current_row e + 1);
          ws = ws_cell ws (current_row e + 1) answer_col (Some (PStr '''')) input_cell;
          e = e\<lparr>final_sheet := ws,
                answer_cells := answer_cells e @
                  [\<lparr>question_id = str_int question_num @ part sub_q,
                    cell_address = answer_cell_addr,
                    correct_answer = Some (sub_answer sub_q),
                    rec_tolerance = sub_tolerance sub_q,
                    rec_type = None\<rparr>]\<rparr>;
          e = e\<lparr>current_row := current_row e + 2\<rparr>;
          e = add_spacing e 1
      in (e, answer_cell_addr))"

text \<open>\<^verbatim>\<open>question.options\<close> as a condition: neither \<^verbatim>\<open>None\<close> nor the empty list.\<close>

fun truthy_list :: "'a list option \<Rightarrow> bool" where
  "truthy_list None = False"
| "truthy_list (Some xs) = (xs \<noteq> [])"

definition list_validation :: "string \<Rightarrow> nat \<times> nat \<Rightarrow> DataValidation" where
  "list_validation f pos = \<lparr>dv_type = ''list'', formula1 = f, allow_blank = True, sqref = [pos]\<rparr>"

definition add_data_validation :: "worksheet \<Rightarrow> DataValidation \<Rightarrow> worksheet" where
  "add_data_validation ws dv = ws\<lparr>data_validations := data_validations ws @ [dv]\<rparr>"

definition options_formula :: "string list \<Rightarrow> string" where
  "options_formula opts =
     (let safe_options = map (replace_char (CHR 0x22) (CHR 0x27)) opts
      in [CHR 0x22] @ join '','' safe_options @ [CHR 0x22])"

definition add_simple_question :: "ExcelLayoutEngine \<Rightarrow> Question \<Rightarrow> int \<Rightarrow> ExcelLayoutEngine \<times> string" where
  "add_simple_question e q question_num =
     (let e = add_spacing e 1;
          ws = ws_cell (final_sheet e) (current_row e) 2
             (Some (PStr (str_int question_num @ ''. '' @ question q)))
             (\<lambda>c. c\<lparr>cell_font := question_font, cell_alignment := left_align,
                     cell_fill := white_fill\<rparr>);
          e = e\<lparr>final_sheet := ws, current_row := current_row e + 1\<rparr>;
          answer_col = 3;
          answer_cell_addr = get_column_letter answer_col @ str_nat (current_row e);
          ws = ws_cell (final_sheet e) (current_row e) answer_col (Some (PStr '''')) input_cell;
          ws = (if qtype q \<in> set [''dropdown'', ''multiplechoice''] \<and> truthy_list (options q)
                then add_data_validation ws
                  (list_validation (options_formula (case options q of None \<Rightarrow> [] | Some os \<Rightarrow> os))
                     (current_row e, answer_col))
                else if qtype q = ''truefalse''
                then add_data_validation ws
                  (list_validation ([CHR 0x22] @ ''True,False'' @ [CHR 0x22])
                     (current_row e, answer_col))
                else ws);
          e = e\<lparr>final_sheet := ws,
                answer_cells := answer_cells e @
                  [\<lparr>question_id = str_int question_num,
                    cell_address = answer_cell_addr,
                    correct_answer = answer q,
                    rec_tolerance = tolerance q,
                    rec_type = Some (qtype q)\<rparr>]\<rparr>;
          e = e\<lparr>current_row := current_row e + 1\<rparr>;
          e = add_spacing e 1
      in (e, answer_cell_addr))"

section \<open>The grading sheet\<close>

text \<open>
  The three formulas of \<^verbatim>\<open>setup_grading\<close> for grading row \<open>r\<close>, as syntax trees:
  \<^verbatim>\<open>=IF(ABS(VALUE(Kr)-VALUE(Jr))<=(tolerance*ABS(VALUE(Kr))),1,0)\<close>,
  \<^verbatim>\<open>=IF(TEXT(Jr,"@")=TEXT(Kr,"@"),1,0)\<close> and
  \<^verbatim>\<open>=IF(ABS(VALUE(Kr)-VALUE(Jr))<=0.01,1,0)\<close>.
\<close>

definition tolerance_formula :: "rat \<Rightarrow> nat \<Rightarrow> xl_expr" where
  "tolerance_formula tol r =
     IF (LessEq (ABS (Minus (VALUE (CellRef ''K'' r)) (VALUE (CellRef ''J'' r))))
                (Times (Num tol) (ABS (VALUE (CellRef ''K'' r)))))
        (Num 1) (Num 0)"

definition text_formula :: "nat \<Rightarrow> xl_expr" where
  "text_formula r =
     IF (Equal (TEXT_at (CellRef ''J'' r)) (TEXT_at (CellRef ''K'' r))) (Num 1) (Num 0)"

definition default_formula :: "nat \<Rightarrow> xl_expr" where
  "default_formula r =
     IF (LessEq (ABS (Minus (VALUE (CellRef ''K'' r)) (VALUE (CellRef ''J'' r)))) (Num 0.01))
        (Num 1) (Num 0)"

text \<open>
  The choice of formula. \<^verbatim>\<open>answer_info.get('type', 'numerical')\<close> supplies the default type;
  \<^verbatim>\<open>if tolerance and ...\<close> is Python truthiness of an optional float: neither \<^verbatim>\<open>None\<close>
  nor zero.
\<close>

definition get_type :: "AnswerRecord \<Rightarrow> string" where
  "get_type answer_info = (case rec_type answer_info of None \<Rightarrow> ''numerical'' | Some t \<Rightarrow> t)"

fun truthy_float :: "rat option \<Rightarrow> bool" where
  "truthy_float None = False"
| "truthy_float (Some x) = (x \<noteq> 0)"

definition grading_formula :: "AnswerRecord \<Rightarrow> nat \<Rightarrow> xl_expr" where
  "grading_formula answer_info grading_row =
     (let tolerance = rec_tolerance answer_info;
          question_type = get_type answer_info
      in if truthy_float tolerance \<and> question_type = ''numerical''
           then tolerance_formula (case tolerance of None \<Rightarrow> 0 | Some tol \<Rightarrow> tol) grading_row
         else if question_type \<in> set [''truefalse'', ''multiplechoice'', ''dropdown'']
           then text_formula grading_row
         else default_formula grading_row)"

definition graded_cell :: "nat \<Rightarrow> cell \<Rightarrow> cell" where
  "graded_cell col c =
     (let c = c\<lparr>cell_border := thin_border, cell_alignment := center_align\<rparr>
      in if col = 9 then c\<lparr>cell_font := bold_font\<rparr> else c)"

definition grade_row :: "worksheet \<Rightarrow> nat \<Rightarrow> AnswerRecord \<Rightarrow> worksheet" where
  "grade_row ws grading_row answer_info =
     (let ws = ws_cell ws grading_row 9 (Some (PStr (question_id answer_info))) id;
          student_formula = ''=Student!'' @ cell_address answer_info;
          ws = ws_cell ws grading_row 10 (Some (PStr student_formula)) id;
          ws = ws_cell ws grading_row 11 (map_option PStr (correct_answer answer_info)) id;
          ws = ws_cell ws grading_row 12
                 (Some (PFormula (grading_formula answer_info grading_row))) id
      in foldl (\<lambda>w col. ws_cell w grading_row col None (graded_cell col)) ws [9..<13])"

fun grade_rows :: "worksheet \<Rightarrow> nat \<Rightarrow> AnswerRecord list \<Rightarrow> worksheet \<times> nat" where
  "grade_rows ws grading_row [] = (ws, grading_row)"
| "grade_rows ws grading_row (a # as) = grade_rows (grade_row ws grading_row a) (grading_row + 1) as"

definition setup_grading :: "ExcelLayoutEngine \<Rightarrow> ExcelLayoutEngine" where
  "setup_grading e =
     (case grade_rows (solution_sheet e) 2 (answer_cells e) of (ws, grading_row) \<Rightarrow>
        if answer_cells e \<noteq> [] then
          (let ws = ws_cell ws (grading_row + 1) 11 (Some (PStr ''Total Score:''))
                      (\<lambda>c. c\<lparr>cell_font := bold_font, cell_alignment := center_align\<rparr>);
               total_formula = ''=SUM(L2:L'' @ str_nat grading_row @ '')'';
               ws = ws_cell ws (grading_row + 1) 12 (Some (PStr total_formula))
                      (\<lambda>c. c\<lparr>cell_font := bold_font, cell_alignment := center_align,
                              cell_border := thin_border\<rparr>)
           in e\<lparr>solution_sheet := ws\<rparr>)
        else e\<lparr>solution_sheet := ws\<rparr>)"

section \<open>Assembling the workbook\<close>

text \<open>
  The loop of \<^verbatim>\<open>build_professional_workbook\<close> over the questions, \<open>question_num\<close> counting
  from the value given. \<^verbatim>\<open>if question.subquestions:\<close> skips \<^verbatim>\<open>None\<close> and the empty list.
\<close>

definition add_subquestions :: "ExcelLayoutEngine \<Rightarrow> SubQuestion list \<Rightarrow> int \<Rightarrow> ExcelLayoutEngine" where
  "add_subquestions e subs question_num =
     foldl (\<lambda>e' sub_q. fst (add_subquestion e' sub_q question_num)) e subs"

definition add_question :: "ExcelLayoutEngine \<Rightarrow> Question \<Rightarrow> int \<Rightarrow> ExcelLayoutEngine" where
  "add_question e q question_num =
     (if qtype q = ''data_table'' \<or> qtype q = ''multipart'' then
        (let e = fst (add_question_header e question_num (question q));
             e = (case data_table q of None \<Rightarrow> e | Some dt \<Rightarrow> add_data_table e (Some dt));
             e = (case subquestions q of None \<Rightarrow> e
                  | Some subs \<Rightarrow> if subs \<noteq> [] then add_subquestions e subs question_num else e)
         in e)
      else fst (add_simple_question e q question_num))"

fun add_questions :: "ExcelLayoutEngine \<Rightarrow> Question list \<Rightarrow> int \<Rightarrow> ExcelLayoutEngine" where
  "add_questions e [] question_num = e"
| "add_questions e (q # qs) question_num =
     add_questions (add_question e q question_num) qs (question_num + 1)"

text \<open>
  \<^verbatim>\<open>build_professional_workbook\<close>: the result is the file name and the workbook saved under
  it (the engine's two sheets and its registry).
\<close>

definition build_professional_workbook ::
    "Question list \<Rightarrow> string \<Rightarrow> string \<Rightarrow> string \<times> ExcelLayoutEngine" where
  "build_professional_workbook questions filename exam_title =
     (let layout = setup_sheets init;
          ws = ws_cell (final_sheet layout) 1 2 (Some (PStr exam_title))
                 (\<lambda>c. c\<lparr>cell_font := title_font, cell_alignment := center_align,
                         cell_fill := white_fill\<rparr>);
          layout = layout\<lparr>final_sheet := ws\<rparr>;
          layout = add_questions layout questions 1;
          layout = setup_grading layout;
          layout = layout\<lparr>solution_sheet := (solution_sheet layout)\<lparr>sheet_state := ''hidden''\<rparr>\<rparr>;
          layout = layout\<lparr>final_sheet := (final_sheet layout)\<lparr>protection_sheet := False\<rparr>\<rparr>
      in (filename, layout))"

section \<open>What the emitted formulas compute\<close>

text \<open>
  The grading formulas are evaluated by the spreadsheet application that opens the workbook,
  not by \<^verbatim>\<open>main.py\<close>. This section gives the value of each function and operator they use,
  after the application's function reference: \<^verbatim>\<open>VALUE\<close> converts text that represents a
  number to that number, \<^verbatim>\<open>TEXT(v,"@")\<close> gives \<open>v\<close> as text, \<^verbatim>\<open>=\<close> on two pieces of text
  ignores letter case (the case-sensitive comparison is the separate function \<^verbatim>\<open>EXACT\<close>), an
  error value in an operand is the result. Numbers are rationals and the arithmetic is exact,
  where the application rounds to binary floating point. The two conversions between text
  and numbers are parameters (\<open>xl_conv\<close>). Letter case is that of the letters \<open>a\<close> to \<open>z\<close>.
\<close>

datatype xl_value = XNum rat | XText string | XBool bool | XBlank | XError

record xl_conv =
  text_to_number :: "string \<Rightarrow> rat option"
  number_to_text :: "rat \<Rightarrow> string"

definition to_upper :: "char \<Rightarrow> char" where
  "to_upper ch =
     (case map_of (zip ''abcdefghijklmnopqrstuvwxyz'' ''ABCDEFGHIJKLMNOPQRSTUVWXYZ'') ch of
        None \<Rightarrow> ch | Some u \<Rightarrow> u)"

definition upper :: "string \<Rightarrow> string" where
  "upper s = map to_upper s"

text \<open>An operand of \<^verbatim>\<open>ABS\<close>, \<^verbatim>\<open>-\<close> or \<^verbatim>\<open>*\<close> as a number.\<close>

fun xl_number :: "xl_conv \<Rightarrow> xl_value \<Rightarrow> rat option" where
  "xl_number cv (XNum n) = Some n"
| "xl_number cv (XText s) = text_to_number cv s"
| "xl_number cv (XBool b) = Some (if b then 1 else 0)"
| "xl_number cv XBlank = Some 0"
| "xl_number cv XError = None"

fun xl_VALUE :: "xl_conv \<Rightarrow> xl_value \<Rightarrow> xl_value" where
  "xl_VALUE cv (XNum n) = XNum n"
| "xl_VALUE cv (XText s) = (case text_to_number cv s of None \<Rightarrow> XError | Some n \<Rightarrow> XNum n)"
| "xl_VALUE cv (XBool b) = XError"
| "xl_VALUE cv XBlank = XNum 0"
| "xl_VALUE cv XError = XError"

fun xl_TEXT_at :: "xl_conv \<Rightarrow> xl_value \<Rightarrow> xl_value" where
  "xl_TEXT_at cv (XNum n) = XText (number_to_text cv n)"
| "xl_TEXT_at cv (XText s) = XText s"
| "xl_TEXT_at cv (XBool b) = XText (if b then ''TRUE'' else ''FALSE'')"
| "xl_TEXT_at cv XBlank = XText []"
| "xl_TEXT_at cv XError = XError"

definition xl_arith :: "xl_conv \<Rightarrow> (rat \<Rightarrow> rat \<Rightarrow> rat) \<Rightarrow> xl_value \<Rightarrow> xl_value \<Rightarrow> xl_value" where
  "xl_arith cv f a b =
     (case (xl_number cv a, xl_number cv b) of
        (Some x, Some y) \<Rightarrow> XNum (f x y)
      | _ \<Rightarrow> XError)"

text \<open>
  \<^verbatim>\<open><=\<close>: the formulas above compare two numbers only; operands of any other kind are given
  the error value here.
\<close>

fun xl_le :: "xl_value \<Rightarrow> xl_value \<Rightarrow> xl_value" where
  "xl_le (XNum x) (XNum y) = XBool (x \<le> y)"
| "xl_le a b = XError"

fun xl_eq :: "xl_value \<Rightarrow> xl_value \<Rightarrow> xl_value" where
  "xl_eq XError b = XError"
| "xl_eq a XError = XError"
| "xl_eq (XText s) (XText t) = XBool (upper s = upper t)"
| "xl_eq (XNum x) (XNum y) = XBool (x = y)"
| "xl_eq (XBool p) (XBool q) = XBool (p = q)"
| "xl_eq XBlank XBlank = XBool True"
| "xl_eq XBlank (XText t) = XBool (t = [])"
| "xl_eq (XText s) XBlank = XBool (s = [])"
| "xl_eq XBlank (XNum y) = XBool (y = 0)"
| "xl_eq (XNum x) XBlank = XBool (x = 0)"
| "xl_eq XBlank (XBool q) = XBool (\<not> q)"
| "xl_eq (XBool p) XBlank = XBool (\<not> p)"
| "xl_eq a b = XBool False"

fun eval :: "xl_conv \<Rightarrow> (string \<Rightarrow> nat \<Rightarrow> xl_value) \<Rightarrow> xl_expr \<Rightarrow> xl_value" where
  "eval cv env (Num n) = XNum n"
| "eval cv env (CellRef col r) = env col r"
| "eval cv env (ABS a) =
     (case xl_number cv (eval cv env a) of None \<Rightarrow> XError | Some x \<Rightarrow> XNum \<bar>x\<bar>)"
| "eval cv env (VALUE a) = xl_VALUE cv (eval cv env a)"
| "eval cv env (TEXT_at a) = xl_TEXT_at cv (eval cv env a)"
| "eval cv env (Minus a b) = xl_arith cv (-) (eval cv env a) (eval cv env b)"
| "eval cv env (Times a b) = xl_arith cv (*) (eval cv env a) (eval cv env b)"
| "eval cv env (LessEq a b) = xl_le (eval cv env a) (eval cv env b)"
| "eval cv env (Equal a b) = xl_eq (eval cv env a) (eval cv env b)"
| "eval cv env (IF c a b) =
     (case eval cv env c of
        XBool p \<Rightarrow> if p then eval cv env a else eval cv env b
      | XNum x \<Rightarrow> if x \<noteq> 0 then eval cv env a else eval cv env b
      | XBlank \<Rightarrow> eval cv env b
      | XText s \<Rightarrow> XError
      | XError \<Rightarrow> XError)"

text \<open>
  A reader of plain decimal text (an optional minus sign, digits, an optional point and
  digits), for concrete instances of \<open>text_to_number\<close>.
\<close>

definition digit_value :: "char \<Rightarrow> nat option" where
  "digit_value ch = map_of (zip ''0123456789'' [0..<10]) ch"

definition is_digit :: "char \<Rightarrow> bool" where
  "is_digit ch = (ch \<in> set ''0123456789'')"

definition nat_of_digits :: "string \<Rightarrow> nat" where
  "nat_of_digits s = foldl (\<lambda>acc ch. 10 * acc + (case digit_value ch of None \<Rightarrow> 0 | Some d \<Rightarrow> d)) 0 s"

definition read_unsigned :: "string \<Rightarrow> rat option" where
  "read_unsigned s =
     (let ip = takeWhile is_digit s; rest = dropWhile is_digit s
      in if ip = [] then None
         else case rest of
           [] \<Rightarrow> Some (of_nat (nat_of_digits ip))
         | ch # fp \<Rightarrow>
             if ch = CHR ''.'' \<and> fp \<noteq> [] \<and> list_all is_digit fp
             then Some (of_nat (nat_of_digits ip) + of_nat (nat_of_digits fp) / 10 ^ length fp)
             else None)"

definition read_decimal :: "string \<Rightarrow> rat option" where
  "read_decimal s =
     (case s of
        [] \<Rightarrow> None
      | ch # t \<Rightarrow> if ch = CHR ''-'' then map_option uminus (read_unsigned t) else read_unsigned s)"

definition decimal_conv :: xl_conv where
  "decimal_conv = \<lparr>text_to_number = read_decimal, number_to_text = (\<lambda>n. [])\<rparr>"

text \<open>
  The cells a grading formula reads: \<open>J\<close> shows the student's answer (the value of the
  reference \<^verbatim>\<open>=Student!<address>\<close>), \<open>K\<close> the correct answer.
\<close>

definition row_env :: "xl_value \<Rightarrow> xl_value \<Rightarrow> string \<Rightarrow> nat \<Rightarrow> xl_value" where
  "row_env j k col r = (if col = ''J'' then j else if col = ''K'' then k else XBlank)"

text \<open>The value stored in a cell of a sheet, and the row a cell address names.\<close>

definition value_at :: "worksheet \<Rightarrow> nat \<Rightarrow> nat \<Rightarrow> pyval option" where
  "value_at ws r k = (case cells ws (r, k) of None \<Rightarrow> None | Some c \<Rightarrow> cell_value c)"

definition is_letter :: "char \<Rightarrow> bool" where
  "is_letter ch = (ch \<in> set ''ABCDEFGHIJKLMNOPQRSTUVWXYZ'')"

definition address_row :: "string \<Rightarrow> nat" where
  "address_row addr = nat_of_digits (dropWhile is_letter addr)"

definition address_column :: "string \<Rightarrow> string" where
  "address_column addr = takeWhile is_letter addr"

text \<open>
  \<^verbatim>\<open>openpyxl.utils.column_index_from_string\<close> and the coordinate (row, column) an address such
  as \<^verbatim>\<open>D5\<close> names.
\<close>

definition letter_value :: "char \<Rightarrow> nat" where
  "letter_value ch =
     (case map_of (zip ''ABCDEFGHIJKLMNOPQRSTUVWXYZ'' [1..<27]) ch of None \<Rightarrow> 0 | Some v \<Rightarrow> v)"

definition column_index :: "string \<Rightarrow> nat" where
  "column_index s = foldl (\<lambda>acc ch. 26 * acc + letter_value ch) 0 s"

definition coordinate :: "string \<Rightarrow> nat \<times> nat" where
  "coordinate addr = (address_row addr, column_index (address_column addr))"

text \<open>
  An answer input cell as \<^verbatim>\<open>add_subquestion\<close> and \<^verbatim>\<open>add_simple_question\<close> leave it: the
  empty string as value, thin border, centred, answer fill.
\<close>

definition is_answer_input :: "cell option \<Rightarrow> bool" where
  "is_answer_input c =
     (case c of
        None \<Rightarrow> False
      | Some x \<Rightarrow> cell_value x = Some (PStr []) \<and> cell_border x = thin_border \<and>
                  cell_alignment x = center_align \<and> cell_fill x = answer_fill)"

text \<open>
  The entries of a validation list: the text between the quotes of \<open>formula1\<close>, read at the
  commas (\<^verbatim>\<open>s.split(',')\<close>).
\<close>

fun split_on :: "char \<Rightarrow> string \<Rightarrow> string list" where
  "split_on sep [] = [[]]"
| "split_on sep (ch # s) =
     (if ch = sep then [] # split_on sep s
      else case split_on sep s of [] \<Rightarrow> [[ch]] | w # ws \<Rightarrow> (ch # w) # ws)"

text \<open>
  The question identifiers the registry is to hold for a list of questions numbered from \<open>n\<close>:
  number and part label for each sub-question of a data-table or multi-part question, the
  number alone for any other question.
\<close>

fun expected_question_ids :: "Question list \<Rightarrow> int \<Rightarrow> string list" where
  "expected_question_ids [] n = []"
| "expected_question_ids (q # qs) n =
     (if qtype q = ''data_table'' \<or> qtype q = ''multipart''
      then map (\<lambda>sub_q. str_int n @ part sub_q)
             (case subquestions q of None \<Rightarrow> [] | Some subs \<Rightarrow> subs)
      else [str_int n])
     @ expected_question_ids qs (n + 1)"

text \<open>What the grading of an answer depends on: identifier, correct answer, tolerance.\<close>

definition record_key :: "AnswerRecord \<Rightarrow> string \<times> string option \<times> rat option" where
  "record_key a = (question_id a, correct_answer a, rec_tolerance a)"

text \<open>
  The registry invariant: every recorded address names an answer input cell of the student
  sheet in a row the cursor has passed, and the rows of the addresses increase strictly along
  the registry.
\<close>

definition registered_ok :: "ExcelLayoutEngine \<Rightarrow> bool" where
  "registered_ok e =
     ((\<forall>a \<in> set (answer_cells e).
         address_row (cell_address a) < current_row e \<and>
         is_answer_input (cells (final_sheet e) (coordinate (cell_address a)))) \<and>
      sorted_wrt (<) (map (address_row \<circ> cell_address) (answer_cells e)))"

text \<open>The engine as the loop over the questions receives it: sheets set up, title written.\<close>

definition titled :: "string \<Rightarrow> ExcelLayoutEngine" where
  "titled exam_title =
     (setup_sheets init)\<lparr>final_sheet :=
        ws_cell (final_sheet (setup_sheets init)) 1 2 (Some (PStr exam_title))
          (\<lambda>c. c\<lparr>cell_font := title_font, cell_alignment := center_align,
                  cell_fill := white_fill\<rparr>)\<rparr>"

text \<open>
  Cell \<open>(r, k)\<close> of the student sheet and the height of row \<open>r\<close> are the same in \<open>e'\<close>
  as in \<open>e\<close> when \<open>r\<close> lies outside the rows from the cursor of \<open>e\<close> up to, and not
  including, the cursor of \<open>e'\<close>.
\<close>

definition same_outside :: "ExcelLayoutEngine \<Rightarrow> ExcelLayoutEngine \<Rightarrow> nat \<Rightarrow> nat \<Rightarrow> bool" where
  "same_outside e e' r k =
     (r < current_row e \<or> current_row e' \<le> r \<longrightarrow>
        cells (final_sheet e') (r, k) = cells (final_sheet e) (r, k) \<and>
        row_height (final_sheet e') r = row_height (final_sheet e) r)"

section \<open>Example inputs\<close>

text \<open>
  Two engine states of a build: \<open>fresh\<close> when the loop starts, \<open>headed\<close> after the header of
  a first question has been added.
\<close>

definition fresh :: ExcelLayoutEngine where
  "fresh = titled ''Midterm''"

definition headed :: ExcelLayoutEngine where
  "headed = fst (add_question_header fresh 1 ''Analyze the following GDP data:'')"

definition tf_q :: Question where
  "tf_q = \<lparr>qtype = ''truefalse'', question = ''Water boils at 100 C at sea level.'',
     answer = Some ''True'', options = None, tolerance = None, data_table = None,
     subquestions = None\<rparr>"

definition mc_q :: Question where
  "mc_q = \<lparr>qtype = ''multiplechoice'', question = ''Capital of France?'',
     answer = Some ''Paris'', options = Some [''Paris'', ''Rome'', [CHR 0x22, CHR ''X'', CHR 0x22]],
     tolerance = None, data_table = None, subquestions = None\<rparr>"

definition mc_no_options :: Question where
  "mc_no_options = \<lparr>qtype = ''multiplechoice'', question = ''Capital of France?'',
     answer = Some ''Paris'', options = None, tolerance = None, data_table = None,
     subquestions = None\<rparr>"

definition num_q :: "string \<Rightarrow> rat option \<Rightarrow> Question" where
  "num_q a tol = \<lparr>qtype = ''numerical'', question = ''Compute the value.'',
     answer = Some a, options = None, tolerance = tol, data_table = None,
     subquestions = None\<rparr>"

definition gdp_table :: DataTable where
  "gdp_table = \<lparr>headers = [''Year'', ''GDP''],
     rows = [[Some (PInt 2020), Some (PFloat 21.4)], [Some (PInt 2021), Some (PFloat 23.3)]]\<rparr>"

definition ragged_table :: DataTable where
  "ragged_table = \<lparr>headers = [''Year'', ''GDP''], rows = [[Some (PInt 2020)]]\<rparr>"

definition sub_a :: SubQuestion where
  "sub_a = \<lparr>part = ''A'', sub_question = ''What was the growth?'', sub_answer = ''8.9'',
     sub_tolerance = Some 0.02\<rparr>"

definition sub_b :: SubQuestion where
  "sub_b = \<lparr>part = ''B'', sub_question = ''Which year was higher?'', sub_answer = ''2021'',
     sub_tolerance = None\<rparr>"

definition sub_paris :: SubQuestion where
  "sub_paris = \<lparr>part = ''C'', sub_question = ''Which capital had the higher growth?'',
     sub_answer = ''Paris'', sub_tolerance = None\<rparr>"

definition table_q :: Question where
  "table_q = \<lparr>qtype = ''data_table'', question = ''Analyze the following GDP data:'',
     answer = None, options = None, tolerance = None, data_table = Some gdp_table,
     subquestions = Some [sub_a, sub_b]\<rparr>"

section \<open>Lemmas: sheets and cells\<close>

lemma ws_cell_fields [simp]:
  "title (ws_cell ws r k v sty) = title ws"
  "row_height (ws_cell ws r k v sty) = row_height ws"
  "column_width (ws_cell ws r k v sty) = column_width ws"
  "data_validations (ws_cell ws r k v sty) = data_validations ws"
  "sheet_state (ws_cell ws r k v sty) = sheet_state ws"
  "protection_sheet (ws_cell ws r k v sty) = protection_sheet ws"
  by (simp_all add: ws_cell_def)

lemma cells_ws_cell:
  "cells (ws_cell ws r k v sty) p =
     (if p = (r, k) then Some (sty (bind_value v (cell_at ws (r, k)))) else cells ws p)"
  by (simp add: ws_cell_def)

lemma cell_at_ws_cell_other:
  "p \<noteq> (r, k) \<Longrightarrow> cell_at (ws_cell ws r k v sty) p = cell_at ws p"
  by (simp add: cell_at_def cells_ws_cell)

lemma ws_cells_fields [simp]:
  "title (ws_cells ws r k vs sty) = title ws"
  "row_height (ws_cells ws r k vs sty) = row_height ws"
  "column_width (ws_cells ws r k vs sty) = column_width ws"
  "data_validations (ws_cells ws r k vs sty) = data_validations ws"
  "sheet_state (ws_cells ws r k vs sty) = sheet_state ws"
  "protection_sheet (ws_cells ws r k vs sty) = protection_sheet ws"
  by (induction vs arbitrary: ws k; simp)+

lemma cells_ws_cells:
  "cells (ws_cells ws r k vs sty) (r', k') =
     (if r' = r \<and> k \<le> k' \<and> k' < k + length vs
      then Some (sty (bind_value (vs ! (k' - k)) (cell_at ws (r, k'))))
      else cells ws (r', k'))"
proof (induction vs arbitrary: ws k r' k')
  case Nil
  show ?case by auto
next
  case (Cons v vs)
  show ?case
  proof (cases "r' = r \<and> k' = k")
    case True
    then show ?thesis by (simp add: Cons.IH cells_ws_cell)
  next
    case False
    then have "cell_at (ws_cell ws r k v sty) (r, k') = cell_at ws (r, k')" if "r' = r"
      using that by (simp add: cell_at_ws_cell_other)
    with False show ?thesis
      by (auto simp: Cons.IH cells_ws_cell Suc_diff_le nth_Cons')
  qed
qed

lemma add_table_row_fields [simp]:
  "current_row (add_table_row e row) = current_row e + 1"
  "answer_cells (add_table_row e row) = answer_cells e"
  "solution_sheet (add_table_row e row) = solution_sheet e"
  "data_validations (final_sheet (add_table_row e row)) = data_validations (final_sheet e)"
  "row_height (final_sheet (add_table_row e row)) = row_height (final_sheet e)"
  "protection_sheet (final_sheet (add_table_row e row)) = protection_sheet (final_sheet e)"
  by (simp_all add: add_table_row_def)

lemma table_rows_fields [simp]:
  "current_row (foldl add_table_row e rws) = current_row e + length rws"
  "answer_cells (foldl add_table_row e rws) = answer_cells e"
  "solution_sheet (foldl add_table_row e rws) = solution_sheet e"
  "data_validations (final_sheet (foldl add_table_row e rws)) = data_validations (final_sheet e)"
  "row_height (final_sheet (foldl add_table_row e rws)) = row_height (final_sheet e)"
  "protection_sheet (final_sheet (foldl add_table_row e rws)) = protection_sheet (final_sheet e)"
  by (induction rws arbitrary: e; simp)+

lemma cells_table_rows:
  "cells (final_sheet (foldl add_table_row e rws)) (r, k) =
     (if current_row e \<le> r \<and> r < current_row e + length rws \<and>
         3 \<le> k \<and> k < 3 + length (rws ! (r - current_row e))
      then Some (table_cell (bind_value (rws ! (r - current_row e) ! (k - 3))
                   (cell_at (final_sheet e) (r, k))))
      else cells (final_sheet e) (r, k))"
proof (induction rws arbitrary: e r k)
  case Nil
  show ?case by auto
next
  case (Cons row rws)
  let ?e1 = "add_table_row e row"
  have c1: "cells (final_sheet ?e1) (r, k) =
     (if r = current_row e \<and> 3 \<le> k \<and> k < 3 + length row
      then Some (table_cell (bind_value (row ! (k - 3)) (cell_at (final_sheet e) (r, k))))
      else cells (final_sheet e) (r, k))"
    by (auto simp: add_table_row_def cells_ws_cells)
  show ?case
  proof (cases "r \<le> current_row e")
    case True
    then show ?thesis by (auto simp: Cons.IH c1)
  next
    case False
    then have "cell_at (final_sheet ?e1) (r, k) = cell_at (final_sheet e) (r, k)"
      by (simp add: cell_at_def c1)
    moreover from False have "(row # rws) ! (r - current_row e) = rws ! (r - Suc (current_row e))"
      by (simp add: nth_Cons')
    ultimately show ?thesis using False
      by (auto simp: Cons.IH c1)
  qed
qed


lemma add_question_header_fields [simp]:
  "current_row (fst (add_question_header e n t)) = current_row e + 2"
  "answer_cells (fst (add_question_header e n t)) = answer_cells e"
  "solution_sheet (fst (add_question_header e n t)) = solution_sheet e"
  "data_validations (final_sheet (fst (add_question_header e n t))) = data_validations (final_sheet e)"
  "protection_sheet (final_sheet (fst (add_question_header e n t))) = protection_sheet (final_sheet e)"
  "row_height (final_sheet (fst (add_question_header e n t))) = (row_height (final_sheet e))(current_row e + 1 \<mapsto> 20)"
  by (simp_all add: add_question_header_def Let_def add_spacing_def)

lemma cells_add_question_header:
  "cells (final_sheet (fst (add_question_header e n t))) p =
     (if p = (current_row e + 1, 2)
      then Some ((cell_at (final_sheet e) (current_row e + 1, 2))
             \<lparr>cell_value := Some (PStr (str_int n @ ''. '' @ t)), cell_font := bold_font,
              cell_alignment := left_align, cell_fill := white_fill\<rparr>)
      else cells (final_sheet e) p)"
  by (simp add: add_question_header_def Let_def add_spacing_def cells_ws_cell bind_value_def)

lemma add_data_table_fields [simp]:
  "current_row (add_data_table e (Some dt)) = current_row e + length (rows dt) + 3"
  "answer_cells (add_data_table e dto) = answer_cells e"
  "solution_sheet (add_data_table e dto) = solution_sheet e"
  "data_validations (final_sheet (add_data_table e dto)) = data_validations (final_sheet e)"
  "protection_sheet (final_sheet (add_data_table e dto)) = protection_sheet (final_sheet e)"
  "row_height (final_sheet (add_data_table e dto)) = row_height (final_sheet e)"
  by (cases dto; simp add: Let_def add_spacing_def)+

lemma cells_add_data_table:
  "cells (final_sheet (add_data_table e (Some dt))) (r, k) =
     (if r = current_row e + 1 \<and> 3 \<le> k \<and> k < 3 + length (headers dt)
      then Some (header_cell ((cell_at (final_sheet e) (r, k))
                   \<lparr>cell_value := Some (PStr (headers dt ! (k - 3)))\<rparr>))
      else if current_row e + 2 \<le> r \<and> r < current_row e + 2 + length (rows dt) \<and>
              3 \<le> k \<and> k < 3 + length (rows dt ! (r - (current_row e + 2)))
      then Some (table_cell (bind_value (rows dt ! (r - (current_row e + 2)) ! (k - 3))
                   (cell_at (final_sheet e) (r, k))))
      else cells (final_sheet e) (r, k))"
  by (auto simp: Let_def add_spacing_def cells_table_rows cells_ws_cells cell_at_def bind_value_def)

lemma add_subquestion_fields [simp]:
  "current_row (fst (add_subquestion e sq n)) = current_row e + 3"
  "answer_cells (fst (add_subquestion e sq n)) = answer_cells e @
     [\<lparr>question_id = str_int n @ part sq,
       cell_address = get_column_letter 4 @ str_nat (current_row e + 1),
       correct_answer = Some (sub_answer sq), rec_tolerance = sub_tolerance sq,
       rec_type = None\<rparr>]"
  "solution_sheet (fst (add_subquestion e sq n)) = solution_sheet e"
  "data_validations (final_sheet (fst (add_subquestion e sq n))) = data_validations (final_sheet e)"
  "protection_sheet (final_sheet (fst (add_subquestion e sq n))) = protection_sheet (final_sheet e)"
  "row_height (final_sheet (fst (add_subquestion e sq n))) = row_height (final_sheet e)"
  by (simp_all add: add_subquestion_def Let_def add_spacing_def)

lemma cells_add_subquestion:
  "cells (final_sheet (fst (add_subquestion e sq n))) p =
     (if p = (current_row e + 1, 4)
      then Some (input_cell ((cell_at (final_sheet e) p)\<lparr>cell_value := Some (PStr [])\<rparr>))
      else if p = (current_row e, 2)
      then Some ((cell_at (final_sheet e) p)
             \<lparr>cell_value := Some (PStr (part sq @ ''. '' @ sub_question sq)),
              cell_font := question_font, cell_alignment := left_align, cell_fill := white_fill\<rparr>)
      else cells (final_sheet e) p)"
  by (auto simp: add_subquestion_def Let_def add_spacing_def cells_ws_cell bind_value_def cell_at_def)

lemma add_simple_question_fields [simp]:
  "current_row (fst (add_simple_question e q n)) = current_row e + 4"
  "answer_cells (fst (add_simple_question e q n)) = answer_cells e @
     [\<lparr>question_id = str_int n,
       cell_address = get_column_letter 3 @ str_nat (current_row e + 2),
       correct_answer = answer q, rec_tolerance = tolerance q,
       rec_type = Some (qtype q)\<rparr>]"
  "solution_sheet (fst (add_simple_question e q n)) = solution_sheet e"
  "protection_sheet (final_sheet (fst (add_simple_question e q n))) = protection_sheet (final_sheet e)"
  "row_height (final_sheet (fst (add_simple_question e q n))) = row_height (final_sheet e)"
  by (simp_all add: add_simple_question_def Let_def add_spacing_def add_data_validation_def)

lemma cells_add_simple_question:
  "cells (final_sheet (fst (add_simple_question e q n))) p =
     (if p = (current_row e + 2, 3)
      then Some (input_cell ((cell_at (final_sheet e) p)\<lparr>cell_value := Some (PStr [])\<rparr>))
      else if p = (current_row e + 1, 2)
      then Some ((cell_at (final_sheet e) p)
             \<lparr>cell_value := Some (PStr (str_int n @ ''. '' @ question q)),
              cell_font := question_font, cell_alignment := left_align, cell_fill := white_fill\<rparr>)
      else cells (final_sheet e) p)"
  by (auto simp: add_simple_question_def Let_def add_spacing_def cells_ws_cell bind_value_def
        cell_at_def add_data_validation_def)

lemma validations_add_simple_question:
  "data_validations (final_sheet (fst (add_simple_question e q n))) =
     data_validations (final_sheet e) @
     (if qtype q \<in> set [''dropdown'', ''multiplechoice''] \<and> truthy_list (options q)
      then [list_validation (options_formula (case options q of None \<Rightarrow> [] | Some os \<Rightarrow> os))
              (current_row e + 2, 3)]
      else if qtype q = ''truefalse''
      then [list_validation ([CHR 0x22] @ ''True,False'' @ [CHR 0x22]) (current_row e + 2, 3)]
      else [])"
  by (simp add: add_simple_question_def Let_def add_spacing_def add_data_validation_def)

section \<open>Lemmas: cell addresses\<close>

lemma digit_char_cases:
  "d < 10 \<Longrightarrow> digit_char d \<in> set ''0123456789''"
  unfolding digit_char_def
  by (rule nth_mem) simp

lemma digit_value_digit_char: "d < 10 \<Longrightarrow> digit_value (digit_char d) = Some d"
proof -
  assume "d < 10"
  then have "d \<in> {0,1,2,3,4,5,6,7,8,9}" by auto
  then show ?thesis
    by (auto simp: digit_value_def digit_char_def upt_rec)
qed

lemma str_nat_digits: "set (str_nat n) \<subseteq> set ''0123456789''"
proof (induction n rule: str_nat.induct)
  case (1 n)
  show ?case
  proof (cases "n < 10")
    case True
    then show ?thesis using digit_char_cases [of n] by (subst str_nat.simps) simp
  next
    case False
    then show ?thesis using 1 digit_char_cases [of "n mod 10"]
      by (subst str_nat.simps) simp
  qed
qed

lemma nat_of_digits_snoc:
  "nat_of_digits (s @ [ch]) = 10 * nat_of_digits s + (case digit_value ch of None \<Rightarrow> 0 | Some d \<Rightarrow> d)"
  by (simp add: nat_of_digits_def)

lemma nat_of_digits_str_nat: "nat_of_digits (str_nat n) = n"
proof (induction n rule: str_nat.induct)
  case (1 n)
  show ?case
  proof (cases "n < 10")
    case True
    then show ?thesis
      by (subst str_nat.simps) (simp add: nat_of_digits_def digit_value_digit_char)
  next
    case False
    then have "nat_of_digits (str_nat n) = 10 * (n div 10) + n mod 10"
      using 1 by (subst str_nat.simps) (simp add: nat_of_digits_snoc digit_value_digit_char)
    then show ?thesis by simp
  qed
qed

lemma str_nat_no_letter: "ch \<in> set (str_nat n) \<Longrightarrow> \<not> is_letter ch"
  using str_nat_digits [of n] by (auto simp: is_letter_def)

lemma dropWhile_letters_str_nat: "dropWhile is_letter (str_nat n) = str_nat n"
  by (cases "str_nat n") (use str_nat_no_letter [of _ n] in auto)

lemma takeWhile_letters_str_nat: "takeWhile is_letter (str_nat n) = []"
  by (cases "str_nat n") (use str_nat_no_letter [of _ n] in auto)

lemma column_letter_3: "get_column_letter 3 = ''C''"
  by (simp add: get_column_letter.simps letter_char_def)

lemma column_letter_4: "get_column_letter 4 = ''D''"
  by (simp add: get_column_letter.simps letter_char_def)

lemma is_letter_CD: "is_letter (CHR ''C'')" "is_letter (CHR ''D'')"
  by (simp_all add: is_letter_def)

lemma column_index_CD: "column_index ''C'' = 3" "column_index ''D'' = 4"
  by code_simp+

lemma address_row_letter: "is_letter ch \<Longrightarrow> address_row (ch # str_nat r) = r"
  by (simp add: address_row_def dropWhile_letters_str_nat nat_of_digits_str_nat)

lemma address_column_letter: "is_letter ch \<Longrightarrow> address_column (ch # str_nat r) = [ch]"
  by (simp add: address_column_def takeWhile_letters_str_nat)

lemma coordinate_C: "coordinate (get_column_letter 3 @ str_nat r) = (r, 3)"
  by (simp add: coordinate_def column_letter_3 address_row_letter address_column_letter
      is_letter_CD column_index_CD)

lemma coordinate_D: "coordinate (get_column_letter 4 @ str_nat r) = (r, 4)"
  by (simp add: coordinate_def column_letter_4 address_row_letter address_column_letter
      is_letter_CD column_index_CD)

section \<open>Lemmas: the registry invariant\<close>

lemma frame_add_question_header:
  "r < current_row e \<or> current_row (fst (add_question_header e n t)) \<le> r \<Longrightarrow>
   cells (final_sheet (fst (add_question_header e n t))) (r, k) = cells (final_sheet e) (r, k)"
  by (auto simp: cells_add_question_header)

lemma frame_add_data_table:
  "r < current_row e \<or> current_row (add_data_table e dto) \<le> r \<Longrightarrow>
   cells (final_sheet (add_data_table e dto)) (r, k) = cells (final_sheet e) (r, k)"
proof (cases dto)
  case None
  then show ?thesis by simp
next
  case (Some dt)
  assume "r < current_row e \<or> current_row (add_data_table e dto) \<le> r"
  with Some show ?thesis
    by (auto simp: cells_add_data_table simp del: add_data_table.simps)
qed

lemma frame_add_subquestion:
  "r < current_row e \<or> current_row (fst (add_subquestion e sq n)) \<le> r \<Longrightarrow>
   cells (final_sheet (fst (add_subquestion e sq n))) (r, k) = cells (final_sheet e) (r, k)"
  by (auto simp: cells_add_subquestion)

lemma frame_add_simple_question:
  "r < current_row e \<or> current_row (fst (add_simple_question e q n)) \<le> r \<Longrightarrow>
   cells (final_sheet (fst (add_simple_question e q n))) (r, k) = cells (final_sheet e) (r, k)"
  by (auto simp: cells_add_simple_question)

lemma fst_coordinate: "fst (coordinate addr) = address_row addr"
  by (simp add: coordinate_def)

lemma registered_ok_frame:
  assumes "registered_ok e"
    and "answer_cells e' = answer_cells e"
    and "current_row e \<le> current_row e'"
    and "\<And>r k. r < current_row e \<Longrightarrow> cells (final_sheet e') (r, k) = cells (final_sheet e) (r, k)"
  shows "registered_ok e'"
  unfolding registered_ok_def
proof (intro conjI ballI)
  fix a assume a: "a \<in> set (answer_cells e')"
  then have old: "address_row (cell_address a) < current_row e"
      "is_answer_input (cells (final_sheet e) (coordinate (cell_address a)))"
    using assms(1,2) by (auto simp: registered_ok_def)
  show "address_row (cell_address a) < current_row e'"
    using old(1) assms(3) by simp
  have "cells (final_sheet e') (coordinate (cell_address a)) =
        cells (final_sheet e) (coordinate (cell_address a))"
    using assms(4) [of "address_row (cell_address a)" "snd (coordinate (cell_address a))"] old(1)
    by (simp add: coordinate_def)
  then show "is_answer_input (cells (final_sheet e') (coordinate (cell_address a)))"
    using old(2) by simp
next
  show "sorted_wrt (<) (map (address_row \<circ> cell_address) (answer_cells e'))"
    using assms(1,2) by (simp add: registered_ok_def)
qed

lemma registered_ok_append:
  assumes "registered_ok e"
    and "answer_cells e' = answer_cells e @ [a]"
    and "current_row e \<le> address_row (cell_address a)"
    and "address_row (cell_address a) < current_row e'"
    and "is_answer_input (cells (final_sheet e') (coordinate (cell_address a)))"
    and "\<And>r k. r < current_row e \<Longrightarrow> cells (final_sheet e') (r, k) = cells (final_sheet e) (r, k)"
  shows "registered_ok e'"
  unfolding registered_ok_def
proof (intro conjI ballI)
  fix b assume b: "b \<in> set (answer_cells e')"
  show "address_row (cell_address b) < current_row e'"
    using b assms(1-4) by (auto simp: registered_ok_def)
  show "is_answer_input (cells (final_sheet e') (coordinate (cell_address b)))"
  proof (cases "b = a")
    case True
    then show ?thesis using assms(5) by simp
  next
    case False
    then have old: "address_row (cell_address b) < current_row e"
      "is_answer_input (cells (final_sheet e) (coordinate (cell_address b)))"
      using b assms(1,2) by (auto simp: registered_ok_def)
    have "cells (final_sheet e') (coordinate (cell_address b)) =
          cells (final_sheet e) (coordinate (cell_address b))"
      using assms(6) [of "address_row (cell_address b)" "snd (coordinate (cell_address b))"] old(1)
      by (simp add: coordinate_def)
    then show ?thesis using old(2) by simp
  qed
next
  have "\<forall>y \<in> set (map (address_row \<circ> cell_address) (answer_cells e)). y < address_row (cell_address a)"
    using assms(1,3) by (fastforce simp: registered_ok_def)
  then show "sorted_wrt (<) (map (address_row \<circ> cell_address) (answer_cells e'))"
    using assms(1,2) by (simp add: registered_ok_def sorted_wrt_append)
qed

lemma address_row_CD:
  "address_row (get_column_letter 3 @ str_nat r) = r"
  "address_row (get_column_letter 4 @ str_nat r) = r"
  using coordinate_C [of r] coordinate_D [of r] by (simp_all add: coordinate_def)

lemma registered_ok_add_question_header:
  "registered_ok e \<Longrightarrow> registered_ok (fst (add_question_header e n t))"
  by (erule registered_ok_frame) (simp_all add: frame_add_question_header)

lemma registered_ok_add_data_table:
  "registered_ok e \<Longrightarrow> registered_ok (add_data_table e dto)"
proof (erule registered_ok_frame)
  show "current_row e \<le> current_row (add_data_table e dto)"
    by (cases dto) (simp_all del: add_data_table.simps(2))
qed (simp_all add: frame_add_data_table)

lemma registered_ok_add_subquestion:
  assumes "registered_ok e"
  shows "registered_ok (fst (add_subquestion e sq n))"
proof (rule registered_ok_append [OF assms])
  show "answer_cells (fst (add_subquestion e sq n)) = answer_cells e @
     [\<lparr>question_id = str_int n @ part sq,
       cell_address = get_column_letter 4 @ str_nat (current_row e + 1),
       correct_answer = Some (sub_answer sq), rec_tolerance = sub_tolerance sq,
       rec_type = None\<rparr>]"
    by simp
qed (simp_all add: address_row_CD coordinate_D cells_add_subquestion
       is_answer_input_def input_cell_def)

lemma registered_ok_add_simple_question:
  assumes "registered_ok e"
  shows "registered_ok (fst (add_simple_question e q n))"
proof (rule registered_ok_append [OF assms])
  show "answer_cells (fst (add_simple_question e q n)) = answer_cells e @
     [\<lparr>question_id = str_int n,
       cell_address = get_column_letter 3 @ str_nat (current_row e + 2),
       correct_answer = answer q, rec_tolerance = tolerance q,
       rec_type = Some (qtype q)\<rparr>]"
    by simp
qed (simp_all add: address_row_CD coordinate_C cells_add_simple_question
       is_answer_input_def input_cell_def)

lemma registered_ok_add_subquestions:
  "registered_ok e \<Longrightarrow> registered_ok (add_subquestions e subs n)"
  unfolding add_subquestions_def
  by (induction subs arbitrary: e) (simp_all add: registered_ok_add_subquestion)

lemma registered_ok_add_question:
  "registered_ok e \<Longrightarrow> registered_ok (add_question e q n)"
  by (auto simp: add_question_def Let_def registered_ok_add_question_header
      registered_ok_add_data_table registered_ok_add_subquestions registered_ok_add_simple_question
      split: option.splits simp del: add_data_table.simps)

lemma registered_ok_add_questions:
  "registered_ok e \<Longrightarrow> registered_ok (add_questions e qs n)"
  by (induction qs arbitrary: e n) (simp_all add: registered_ok_add_question)

lemma setup_grading_fields [simp]:
  "final_sheet (setup_grading e) = final_sheet e"
  "answer_cells (setup_grading e) = answer_cells e"
  "current_row (setup_grading e) = current_row e"
  by (simp_all add: setup_grading_def Let_def split: prod.splits)

lemma setup_sheets_fields [simp]:
  "answer_cells (setup_sheets e) = answer_cells e"
  "current_row (setup_sheets e) = current_row e"
  by (simp_all add: setup_sheets_def Let_def)

lemma init_fields [simp]: "answer_cells init = []" "current_row init = 2"
  by (simp_all add: init_def)

lemma titled_fields [simp]: "answer_cells (titled t) = []" "current_row (titled t) = 2"
  by (simp_all add: titled_def)

lemma build_fields:
  "answer_cells (snd (build_professional_workbook qs f t)) = answer_cells (add_questions (titled t) qs 1)"
  "cells (final_sheet (snd (build_professional_workbook qs f t))) = cells (final_sheet (add_questions (titled t) qs 1))"
  "protection_sheet (final_sheet (snd (build_professional_workbook qs f t))) = False"
  "fst (build_professional_workbook qs f t) = f"
  by (simp_all add: build_professional_workbook_def Let_def titled_def)

lemma registered_ok_empty: "answer_cells e = [] \<Longrightarrow> registered_ok e"
  by (simp add: registered_ok_def)

lemma registered_ok_build:
  "registered_ok (add_questions (titled t) qs 1)"
  by (rule registered_ok_add_questions) (simp add: registered_ok_empty)


lemma keys_add_subquestions:
  "map record_key (answer_cells (add_subquestions e subs n)) =
   map record_key (answer_cells e) @
   map (\<lambda>sq. (str_int n @ part sq, Some (sub_answer sq), sub_tolerance sq)) subs"
  unfolding add_subquestions_def
  by (induction subs arbitrary: e) (simp_all add: record_key_def)

lemma keys_add_question:
  "map record_key (answer_cells (add_question e q n)) =
   map record_key (answer_cells e) @
   (if qtype q = ''data_table'' \<or> qtype q = ''multipart''
    then map (\<lambda>sq. (str_int n @ part sq, Some (sub_answer sq), sub_tolerance sq))
           (case subquestions q of None \<Rightarrow> [] | Some subs \<Rightarrow> subs)
    else [(str_int n, answer q, tolerance q)])"
  by (auto simp: add_question_def Let_def keys_add_subquestions record_key_def
      split: option.splits simp del: add_data_table.simps)

lemma keys_add_questions_indep:
  "map record_key (answer_cells e1) = map record_key (answer_cells e2) \<Longrightarrow>
   map record_key (answer_cells (add_questions e1 qs n)) =
   map record_key (answer_cells (add_questions e2 qs n))"
  by (induction qs arbitrary: e1 e2 n) (simp_all add: keys_add_question)

lemma ids_add_questions:
  "map question_id (answer_cells (add_questions e qs n)) =
   map question_id (answer_cells e) @ expected_question_ids qs n"
proof (induction qs arbitrary: e n)
  case Nil
  show ?case by simp
next
  case (Cons q qs)
  have "map question_id (answer_cells (add_question e q n)) =
        map (fst \<circ> record_key) (answer_cells (add_question e q n))"
    by (simp add: record_key_def comp_def)
  also have "\<dots> = map fst (map record_key (answer_cells (add_question e q n)))"
    by simp
  also have "\<dots> = map question_id (answer_cells e) @
     (if qtype q = ''data_table'' \<or> qtype q = ''multipart''
      then map (\<lambda>sub_q. str_int n @ part sub_q)
             (case subquestions q of None \<Rightarrow> [] | Some subs \<Rightarrow> subs)
      else [str_int n])"
    unfolding keys_add_question by (simp add: record_key_def comp_def)
  finally show ?case by (simp add: Cons.IH)
qed


lemma fill_cells_fields [simp]:
  "data_validations (foldl (\<lambda>w k. ws_cell w r k None sty) ws ks) = data_validations ws"
  "row_height (foldl (\<lambda>w k. ws_cell w r k None sty) ws ks) = row_height ws"
  "protection_sheet (foldl (\<lambda>w k. ws_cell w r k None sty) ws ks) = protection_sheet ws"
  by (induction ks arbitrary: ws; simp)+

lemma cells_fill_cells:
  assumes "\<And>c. sty (sty c) = sty c"
  shows "cells (foldl (\<lambda>w k. ws_cell w r k None sty) ws ks) (r', k') =
     (if r' = r \<and> k' \<in> set ks then Some (sty (cell_at ws (r, k'))) else cells ws (r', k'))"
proof (induction ks arbitrary: ws)
  case Nil
  show ?case by simp
next
  case (Cons k ks)
  show ?case
    by (auto simp: Cons.IH cells_ws_cell cell_at_def bind_value_def assms)
qed

lemma white_row_fields [simp]:
  "data_validations (white_row ws r) = data_validations ws"
  "row_height (white_row ws r) = row_height ws"
  "protection_sheet (white_row ws r) = protection_sheet ws"
  by (simp_all add: white_row_def)

lemma cells_white_row:
  "cells (white_row ws r) (r', k) =
     (if r' = r \<and> 1 \<le> k \<and> k < 20 then Some ((cell_at ws (r, k))\<lparr>cell_fill := white_fill\<rparr>)
      else cells ws (r', k))"
  unfolding white_row_def by (subst cells_fill_cells) auto

lemma white_rows_fields [simp]:
  "data_validations (foldl white_row ws rs) = data_validations ws"
  "row_height (foldl white_row ws rs) = row_height ws"
  "protection_sheet (foldl white_row ws rs) = protection_sheet ws"
  by (induction rs arbitrary: ws; simp)+

lemma cells_white_rows:
  "cells (foldl white_row ws rs) (r, k) =
     (if r \<in> set rs \<and> 1 \<le> k \<and> k < 20 then Some ((cell_at ws (r, k))\<lparr>cell_fill := white_fill\<rparr>)
      else cells ws (r, k))"
proof (induction rs arbitrary: ws)
  case Nil
  show ?case by simp
next
  case (Cons a rs)
  show ?case
    by (auto simp: Cons.IH cells_white_row cell_at_def)
qed

lemma titled_sheet [simp]:
  "data_validations (final_sheet (titled t)) = []"
  "protection_sheet (final_sheet (titled t)) = False"
  by (simp_all add: titled_def setup_sheets_def Let_def set_widths_def init_def new_sheet_def)

lemma cells_titled:
  "cells (final_sheet (titled t)) (r, k) =
     (if (r, k) = (1, 2)
      then Some \<lparr>cell_value = Some (PStr t), cell_font = title_font,
             cell_alignment = center_align, cell_border = no_border, cell_fill = white_fill\<rparr>
      else if 1 \<le> r \<and> r < 100 \<and> 1 \<le> k \<and> k < 20
      then Some \<lparr>cell_value = None, cell_font = default_font,
             cell_alignment = default_align, cell_border = no_border, cell_fill = white_fill\<rparr>
      else None)"
  by (auto simp: titled_def setup_sheets_def Let_def set_widths_def init_def new_sheet_def
      cells_ws_cell cells_white_rows cell_at_def bind_value_def new_cell_def)

lemma fresh_fields [simp]:
  "answer_cells fresh = []" "current_row fresh = 2" "data_validations (final_sheet fresh) = []"
  by (simp_all add: fresh_def)

lemma headed_fields [simp]:
  "answer_cells headed = []" "current_row headed = 4" "data_validations (final_sheet headed) = []"
  by (simp_all add: headed_def)

lemma cells_headed:
  "cells (final_sheet headed) (r, k) =
     (if (r, k) = (3, 2)
      then Some \<lparr>cell_value = Some (PStr ''1. Analyze the following GDP data:''),
             cell_font = bold_font, cell_alignment = left_align, cell_border = no_border,
             cell_fill = white_fill\<rparr>
      else if (r, k) = (1, 2)
      then Some \<lparr>cell_value = Some (PStr ''Midterm''), cell_font = title_font,
             cell_alignment = center_align, cell_border = no_border, cell_fill = white_fill\<rparr>
      else if 1 \<le> r \<and> r < 100 \<and> 1 \<le> k \<and> k < 20
      then Some \<lparr>cell_value = None, cell_font = default_font,
             cell_alignment = default_align, cell_border = no_border, cell_fill = white_fill\<rparr>
      else None)"
  by (simp add: headed_def fresh_def cells_add_question_header cells_titled cell_at_def
      str_int_def str_nat.simps digit_char_def)

lemma example_registry:
  "answer_cells (snd (build_professional_workbook [tf_q, table_q, num_q ''50.00'' None] f t)) =
     [\<lparr>question_id = ''1'', cell_address = ''C4'', correct_answer = Some ''True'',
       rec_tolerance = None, rec_type = Some ''truefalse''\<rparr>,
      \<lparr>question_id = ''2A'', cell_address = ''D14'', correct_answer = Some ''8.9'',
       rec_tolerance = Some 0.02, rec_type = None\<rparr>,
      \<lparr>question_id = ''2B'', cell_address = ''D17'', correct_answer = Some ''2021'',
       rec_tolerance = None, rec_type = None\<rparr>,
      \<lparr>question_id = ''3'', cell_address = ''C21'', correct_answer = Some ''50.00'',
       rec_tolerance = None, rec_type = Some ''numerical''\<rparr>]"
  by (simp add: build_fields add_question_def add_subquestions_def Let_def tf_q_def table_q_def
      num_q_def gdp_table_def sub_a_def sub_b_def column_letter_3 column_letter_4
      str_int_def str_nat.simps digit_char_def del: add_data_table.simps)

lemma example_addresses:
  "coordinate ''C4'' = (4, 3)" "coordinate ''D14'' = (14, 4)" "coordinate ''D17'' = (17, 4)"
  "coordinate ''C21'' = (21, 3)"
  "address_row ''C4'' = 4" "address_row ''D14'' = 14" "address_row ''D17'' = 17"
  "address_row ''C21'' = 21"
  by code_simp+


section \<open>Lemmas: the grading sheet and its formulas\<close>

lemma cell_value_graded_cell [simp]: "cell_value (graded_cell col c) = cell_value c"
  by (simp add: graded_cell_def Let_def)

lemma value_at_keep:
  "(\<And>c. cell_value (sty c) = cell_value c) \<Longrightarrow>
   value_at (ws_cell ws r k None sty) r' k' = value_at ws r' k'"
  by (auto simp: value_at_def ws_cell_def cell_at_def bind_value_def new_cell_def split: option.splits)

lemma value_at_set:
  "(\<And>c. cell_value (sty c) = cell_value c) \<Longrightarrow>
   value_at (ws_cell ws r k (Some x) sty) r' k' = (if r' = r \<and> k' = k then Some x else value_at ws r' k')"
  by (auto simp: value_at_def ws_cell_def cell_at_def bind_value_def split: option.splits)

lemma value_at_grade_row:
  "value_at (grade_row ws r a) r' k =
     (if r' = r \<and> k = 9 then Some (PStr (question_id a))
      else if r' = r \<and> k = 10 then Some (PStr (''=Student!'' @ cell_address a))
      else if r' = r \<and> k = 11 then (case correct_answer a of None \<Rightarrow> value_at ws r 11 | Some c \<Rightarrow> Some (PStr c))
      else if r' = r \<and> k = 12 then Some (PFormula (grading_formula a r))
      else value_at ws r' k)"
  by (cases "correct_answer a") (simp_all add: grade_row_def Let_def upt_rec value_at_set value_at_keep)


lemma snd_grade_rows: "snd (grade_rows ws r as) = r + length as"
  by (induction as arbitrary: ws r) simp_all

lemma grade_rows_below:
  "r' < r \<Longrightarrow> value_at (fst (grade_rows ws r as)) r' k = value_at ws r' k"
  by (induction as arbitrary: ws r) (simp_all add: value_at_grade_row)

lemma grade_rows_row:
  "i < length as \<Longrightarrow>
   value_at (fst (grade_rows ws r as)) (r + i) k = value_at (grade_row ws' (r + i) (as ! i)) (r + i) k"
  if "k \<in> {9, 10, 12} \<or> (k = 11 \<and> correct_answer (as ! i) \<noteq> None)"
  using that
proof (induction as arbitrary: ws r i)
  case Nil
  then show ?case by simp
next
  case (Cons a as)
  show ?case
  proof (cases i)
    case 0
    then show ?thesis using Cons.prems
      by (auto simp: grade_rows_below value_at_grade_row)
  next
    case (Suc j)
    then have "value_at (fst (grade_rows (grade_row ws r a) (r + 1) as)) (r + 1 + j) k =
       value_at (grade_row ws' (r + 1 + j) (as ! j)) (r + 1 + j) k"
      using Cons.prems by (intro Cons.IH) auto
    then show ?thesis using Suc by simp
  qed
qed

lemma value_at_setup_grading:
  assumes "i < length (answer_cells e)"
  shows "value_at (solution_sheet (setup_grading e)) (2 + i) k =
         value_at (fst (grade_rows (solution_sheet e) 2 (answer_cells e))) (2 + i) k"
proof -
  obtain ws g where g: "grade_rows (solution_sheet e) 2 (answer_cells e) = (ws, g)"
    by (cases "grade_rows (solution_sheet e) 2 (answer_cells e)")
  have "g = 2 + length (answer_cells e)"
    using snd_grade_rows [of "solution_sheet e" 2 "answer_cells e"] g by simp
  with assms g show ?thesis
    by (auto simp: setup_grading_def Let_def value_at_set)
qed

lemma emitted_cell:
  assumes "i < length (answer_cells e)"
    and "k \<in> {9, 10, 12} \<or> (k = 11 \<and> correct_answer (answer_cells e ! i) \<noteq> None)"
  shows "value_at (solution_sheet (setup_grading e)) (2 + i) k =
         value_at (grade_row (solution_sheet e) (2 + i) (answer_cells e ! i)) (2 + i) k"
proof -
  have "value_at (solution_sheet (setup_grading e)) (2 + i) k =
        value_at (fst (grade_rows (solution_sheet e) 2 (answer_cells e))) (2 + i) k"
    by (rule value_at_setup_grading [OF assms(1)])
  also have "\<dots> = value_at (grade_row (solution_sheet e) (2 + i) (answer_cells e ! i)) (2 + i) k"
    by (rule grade_rows_row [OF assms(2) assms(1)])
  finally show ?thesis .
qed

lemma emitted_row:
  assumes "i < length (answer_cells e)"
  shows "value_at (solution_sheet (setup_grading e)) (2 + i) 9 = Some (PStr (question_id (answer_cells e ! i)))"
    and "value_at (solution_sheet (setup_grading e)) (2 + i) 10 = Some (PStr (''=Student!'' @ cell_address (answer_cells e ! i)))"
    and "correct_answer (answer_cells e ! i) = Some c \<Longrightarrow> value_at (solution_sheet (setup_grading e)) (2 + i) 11 = Some (PStr c)"
    and "value_at (solution_sheet (setup_grading e)) (2 + i) 12 = Some (PFormula (grading_formula (answer_cells e ! i) (2 + i)))"
proof -
  show "value_at (solution_sheet (setup_grading e)) (2 + i) 9 = Some (PStr (question_id (answer_cells e ! i)))"
    by (subst emitted_cell [OF assms]) (simp_all add: value_at_grade_row)
  show "value_at (solution_sheet (setup_grading e)) (2 + i) 10 = Some (PStr (''=Student!'' @ cell_address (answer_cells e ! i)))"
    by (subst emitted_cell [OF assms]) (simp_all add: value_at_grade_row)
  show "value_at (solution_sheet (setup_grading e)) (2 + i) 12 = Some (PFormula (grading_formula (answer_cells e ! i) (2 + i)))"
    by (subst emitted_cell [OF assms]) (simp_all add: value_at_grade_row)
  show "value_at (solution_sheet (setup_grading e)) (2 + i) 11 = Some (PStr c)"
    if "correct_answer (answer_cells e ! i) = Some c"
    using that by (subst emitted_cell [OF assms]) (simp_all add: value_at_grade_row)
qed

lemma grade_rows_answer:
  "i < length as \<Longrightarrow>
   value_at (fst (grade_rows ws r as)) (r + i) 11 =
     (case correct_answer (as ! i) of None \<Rightarrow> value_at ws (r + i) 11 | Some c \<Rightarrow> Some (PStr c))"
proof (induction as arbitrary: ws r i)
  case Nil
  then show ?case by simp
next
  case (Cons a as)
  show ?case
  proof (cases i)
    case 0
    then show ?thesis
      by (simp add: grade_rows_below value_at_grade_row split: option.splits)
  next
    case (Suc j)
    then have "value_at (fst (grade_rows (grade_row ws r a) (r + 1) as)) (r + 1 + j) 11 =
       (case correct_answer (as ! j) of None \<Rightarrow> value_at (grade_row ws r a) (r + 1 + j) 11
        | Some c \<Rightarrow> Some (PStr c))"
      using Cons.prems by (intro Cons.IH) auto
    then show ?thesis using Suc by (simp add: value_at_grade_row split: option.splits)
  qed
qed

lemma emitted_answer:
  assumes "i < length (answer_cells e)"
  shows "value_at (solution_sheet (setup_grading e)) (2 + i) 11 =
     (case correct_answer (answer_cells e ! i) of
        None \<Rightarrow> value_at (solution_sheet e) (2 + i) 11
      | Some c \<Rightarrow> Some (PStr c))"
proof -
  have "value_at (solution_sheet (setup_grading e)) (2 + i) 11 =
        value_at (fst (grade_rows (solution_sheet e) 2 (answer_cells e))) (2 + i) 11"
    by (rule value_at_setup_grading [OF assms])
  also have "\<dots> = (case correct_answer (answer_cells e ! i) of
        None \<Rightarrow> value_at (solution_sheet e) (2 + i) 11
      | Some c \<Rightarrow> Some (PStr c))"
    by (rule grade_rows_answer [OF assms])
  finally show ?thesis .
qed


lemma xl_VALUE_cases: "xl_VALUE cv v = XError \<or> (\<exists>n. xl_VALUE cv v = XNum n)"
  by (cases v) (auto split: option.splits)

lemma eval_tolerance_formula_any:
  "eval cv env (tolerance_formula tol r) =
     (case xl_VALUE cv (env ''K'' r) of
        XNum c \<Rightarrow> (case xl_VALUE cv (env ''J'' r) of
                     XNum s \<Rightarrow> XNum (if \<bar>c - s\<bar> \<le> tol * \<bar>c\<bar> then 1 else 0)
                   | _ \<Rightarrow> XError)
      | _ \<Rightarrow> XError)"
  using xl_VALUE_cases [of cv "env ''K'' r"] xl_VALUE_cases [of cv "env ''J'' r"]
  by (auto simp: tolerance_formula_def xl_arith_def)

lemma eval_default_formula_any:
  "eval cv env (default_formula r) =
     (case xl_VALUE cv (env ''K'' r) of
        XNum c \<Rightarrow> (case xl_VALUE cv (env ''J'' r) of
                     XNum s \<Rightarrow> XNum (if \<bar>c - s\<bar> \<le> 0.01 then 1 else 0)
                   | _ \<Rightarrow> XError)
      | _ \<Rightarrow> XError)"
  using xl_VALUE_cases [of cv "env ''K'' r"] xl_VALUE_cases [of cv "env ''J'' r"]
  by (auto simp: default_formula_def xl_arith_def)

lemma formulas_distinct:
  "tolerance_formula tol r \<noteq> text_formula r" "default_formula r \<noteq> text_formula r"
  by (simp_all add: tolerance_formula_def default_formula_def text_formula_def)


lemmas read_simps = decimal_conv_def read_decimal_def read_unsigned_def is_digit_def
  nat_of_digits_def digit_value_def upt_rec

lemma emitted_for_simple:
  "value_at (solution_sheet (setup_grading (fst (add_simple_question fresh q 1)))) 2 12 =
     Some (PFormula (grading_formula
       \<lparr>question_id = str_int 1, cell_address = get_column_letter 3 @ str_nat 4,
        correct_answer = answer q, rec_tolerance = tolerance q, rec_type = Some (qtype q)\<rparr> 2))"
  using emitted_row(4) [of 0 "fst (add_simple_question fresh q 1)"] by simp


lemma emitted_for_sub:
  "value_at (solution_sheet (setup_grading (fst (add_subquestion headed sq 1)))) 2 12 =
     Some (PFormula (grading_formula
       \<lparr>question_id = str_int 1 @ part sq, cell_address = get_column_letter 4 @ str_nat 5,
        correct_answer = Some (sub_answer sq), rec_tolerance = sub_tolerance sq,
        rec_type = None\<rparr> 2))"
  using emitted_row(4) [of 0 "fst (add_subquestion headed sq 1)"] by simp

section \<open>Lemmas: validation lists\<close>

lemma split_on_no_sep: "sep \<notin> set x \<Longrightarrow> split_on sep x = [x]"
  by (induction x) auto

lemma split_on_append_sep:
  "sep \<notin> set x \<Longrightarrow> split_on sep (x @ sep # rest) = x # split_on sep rest"
  by (induction x) auto

lemma split_on_join:
  "xs \<noteq> [] \<Longrightarrow> \<forall>x \<in> set xs. sep \<notin> set x \<Longrightarrow> split_on sep (join [sep] xs) = xs"
  by (induction "[sep]" xs rule: join.induct) (simp_all add: split_on_no_sep split_on_append_sep)

lemma set_join: "set (join sep xs) \<subseteq> set sep \<union> \<Union> (set ` set xs)"
  by (induction sep xs rule: join.induct) auto

lemma no_quote_in_options:
  "CHR 0x22 \<notin> set (join '','' (map (replace_char (CHR 0x22) (CHR 0x27)) opts))"
proof -
  have "CHR 0x22 \<notin> set (replace_char (CHR 0x22) (CHR 0x27) x)" for x
    by (auto simp: replace_char_def)
  then show ?thesis
    using set_join [of "'',''" "map (replace_char (CHR 0x22) (CHR 0x27)) opts"] by auto
qed

lemma comma_free_replace:
  "CHR '','' \<notin> set x \<Longrightarrow> CHR '','' \<notin> set (replace_char (CHR 0x22) (CHR 0x27) x)"
  by (auto simp: replace_char_def)


section \<open>The claims\<close>

subsection \<open>Grading formulas\<close>




text \<open>
  Claim C2, as amended. For an answer record at position \<open>i\<close> whose tolerance is set and
  whose type is numerical (given or by default), \<^verbatim>\<open>setup_grading\<close> writes into grading row
  \<open>2 + i\<close> the reference to the student's answer cell in column J, the correct answer in
  column K, and in column L the tolerance formula when the tolerance is not zero and the
  default formula when it is zero (a tolerance of zero is set but falsy). The tolerance formula
  yields 1 when the correct answer and the student's answer both read as numbers \<open>c\<close> and
  \<open>s\<close> with \<open>\<bar>c - s\<bar> \<le> tolerance * \<bar>c\<bar>\<close>, 0 when both read as numbers and the
  difference is larger, and the error value, neither 1 nor 0, when either does not read as a
  number; the default formula does the same with the bound 0.01.
\<close>

theorem tolerance_grading:
  assumes "i < length (answer_cells e)"
    and "rec_tolerance (answer_cells e ! i) = Some tol"
    and "get_type (answer_cells e ! i) = ''numerical''"
  shows "value_at (solution_sheet (setup_grading e)) (2 + i) 10 =
           Some (PStr (''=Student!'' @ cell_address (answer_cells e ! i))) \<and>
         value_at (solution_sheet (setup_grading e)) (2 + i) 11 =
           (case correct_answer (answer_cells e ! i) of
              None \<Rightarrow> value_at (solution_sheet e) (2 + i) 11
            | Some a \<Rightarrow> Some (PStr a)) \<and>
         value_at (solution_sheet (setup_grading e)) (2 + i) 12 =
           Some (PFormula (if tol \<noteq> 0 then tolerance_formula tol (2 + i)
                           else default_formula (2 + i))) \<and>
         eval cv env (tolerance_formula tol (2 + i)) =
           (case xl_VALUE cv (env ''K'' (2 + i)) of
              XNum c \<Rightarrow> (case xl_VALUE cv (env ''J'' (2 + i)) of
                           XNum s \<Rightarrow> XNum (if \<bar>c - s\<bar> \<le> tol * \<bar>c\<bar> then 1 else 0)
                         | _ \<Rightarrow> XError)
            | _ \<Rightarrow> XError) \<and>
         eval cv env (default_formula (2 + i)) =
           (case xl_VALUE cv (env ''K'' (2 + i)) of
              XNum c \<Rightarrow> (case xl_VALUE cv (env ''J'' (2 + i)) of
                           XNum s \<Rightarrow> XNum (if \<bar>c - s\<bar> \<le> 0.01 then 1 else 0)
                         | _ \<Rightarrow> XError)
            | _ \<Rightarrow> XError)"
proof -
  have "grading_formula (answer_cells e ! i) (2 + i) =
      (if tol \<noteq> 0 then tolerance_formula tol (2 + i) else default_formula (2 + i))"
    using assms(2,3) by (simp add: grading_formula_def Let_def)
  then have "value_at (solution_sheet (setup_grading e)) (2 + i) 12 =
           Some (PFormula (if tol \<noteq> 0 then tolerance_formula tol (2 + i)
                           else default_formula (2 + i)))"
    using emitted_row(4) [OF assms(1)] by simp
  then show ?thesis
    using emitted_row(2) [OF assms(1)] emitted_answer [OF assms(1)]
      eval_tolerance_formula_any [of cv env tol "2 + i"] eval_default_formula_any [of cv env "2 + i"]
    by (simp only: simp_thms)
qed

text \<open>
  The claim's examples: correct answer 100 and tolerance 0.02; the student answers 98, 102,
  97.9 and 102.1 grade 1, 1, 0 and 0, and the student answer \<open>abc\<close> gives the error value.
  With tolerance 0 the same question gets the default formula.
\<close>

theorem tolerance_grading_witness:
  "(0::nat) < length (answer_cells (fst (add_simple_question fresh (num_q ''100'' (Some 0.02)) 1))) \<and>
   rec_tolerance (answer_cells (fst (add_simple_question fresh (num_q ''100'' (Some 0.02)) 1)) ! 0) =
     Some 0.02 \<and>
   get_type (answer_cells (fst (add_simple_question fresh (num_q ''100'' (Some 0.02)) 1)) ! 0) =
     ''numerical'' \<and>
   value_at (solution_sheet (setup_grading
       (fst (add_simple_question fresh (num_q ''100'' (Some 0.02)) 1)))) 2 11 =
     Some (PStr ''100'') \<and>
   value_at (solution_sheet (setup_grading
       (fst (add_simple_question fresh (num_q ''100'' (Some 0.02)) 1)))) 2 12 =
     Some (PFormula (tolerance_formula 0.02 2)) \<and>
   xl_VALUE decimal_conv (XText ''100'') = XNum 100 \<and>
   eval decimal_conv (row_env (XNum 98) (XText ''100'')) (tolerance_formula 0.02 2) = XNum 1 \<and>
   eval decimal_conv (row_env (XNum 102) (XText ''100'')) (tolerance_formula 0.02 2) = XNum 1 \<and>
   eval decimal_conv (row_env (XNum 97.9) (XText ''100'')) (tolerance_formula 0.02 2) = XNum 0 \<and>
   eval decimal_conv (row_env (XNum 102.1) (XText ''100'')) (tolerance_formula 0.02 2) = XNum 0 \<and>
   eval decimal_conv (row_env (XText ''abc'') (XText ''100'')) (tolerance_formula 0.02 2) = XError \<and>
   rec_tolerance (answer_cells (fst (add_simple_question fresh (num_q ''100'' (Some 0)) 1)) ! 0) =
     Some 0 \<and>
   value_at (solution_sheet (setup_grading
       (fst (add_simple_question fresh (num_q ''100'' (Some 0)) 1)))) 2 12 =
     Some (PFormula (default_formula 2))"
  using
    tolerance_grading [where e = "fst (add_simple_question fresh (num_q ''100'' (Some 0.02)) 1)"
      and i = 0 and tol = "0.02" and cv = decimal_conv
      and env = "row_env (XNum 98) (XText ''100'')"]
    tolerance_grading [where e = "fst (add_simple_question fresh (num_q ''100'' (Some 0.02)) 1)"
      and i = 0 and tol = "0.02" and cv = decimal_conv
      and env = "row_env (XNum 102) (XText ''100'')"]
    tolerance_grading [where e = "fst (add_simple_question fresh (num_q ''100'' (Some 0.02)) 1)"
      and i = 0 and tol = "0.02" and cv = decimal_conv
      and env = "row_env (XNum 97.9) (XText ''100'')"]
    tolerance_grading [where e = "fst (add_simple_question fresh (num_q ''100'' (Some 0.02)) 1)"
      and i = 0 and tol = "0.02" and cv = decimal_conv
      and env = "row_env (XNum 102.1) (XText ''100'')"]
    tolerance_grading [where e = "fst (add_simple_question fresh (num_q ''100'' (Some 0.02)) 1)"
      and i = 0 and tol = "0.02" and cv = decimal_conv
      and env = "row_env (XText ''abc'') (XText ''100'')"]
    tolerance_grading [where e = "fst (add_simple_question fresh (num_q ''100'' (Some 0)) 1)"
      and i = 0 and tol = 0 and cv = decimal_conv
      and env = "row_env (XNum 98) (XText ''100'')"]
  by (simp add: num_q_def get_type_def read_simps row_env_def)

text \<open>
  Against C2 as stated, twice. A numerical question with correct answer 100 and tolerance 0
  has its tolerance set, yet it gets the default formula, which grades the student answer
  100.005 as 1 although \<open>\<bar>100 - 100.005\<bar>\<close> exceeds \<open>0 * \<bar>100\<bar>\<close>. And for the same question
  with tolerance 0.02 the student answer \<open>abc\<close> yields the error value where the claim says
  0: the formula has no guard against a value that does not read as a number.
\<close>

theorem tolerance_grading_counterexample:
  "rec_tolerance (answer_cells (fst (add_simple_question fresh (num_q ''100'' (Some 0)) 1)) ! 0) =
     Some 0 \<and>
   get_type (answer_cells (fst (add_simple_question fresh (num_q ''100'' (Some 0)) 1)) ! 0) =
     ''numerical'' \<and>
   value_at (solution_sheet (setup_grading
       (fst (add_simple_question fresh (num_q ''100'' (Some 0)) 1)))) 2 12 =
     Some (PFormula (default_formula 2)) \<and>
   eval decimal_conv (row_env (XNum 100.005) (XText ''100'')) (default_formula 2) = XNum 1 \<and>
   \<not> \<bar>100 - 100.005\<bar> \<le> (0::rat) * \<bar>100\<bar> \<and>
   rec_tolerance (answer_cells (fst (add_simple_question fresh (num_q ''100'' (Some 0.02)) 1)) ! 0) =
     Some 0.02 \<and>
   get_type (answer_cells (fst (add_simple_question fresh (num_q ''100'' (Some 0.02)) 1)) ! 0) =
     ''numerical'' \<and>
   value_at (solution_sheet (setup_grading
       (fst (add_simple_question fresh (num_q ''100'' (Some 0.02)) 1)))) 2 12 =
     Some (PFormula (tolerance_formula 0.02 2)) \<and>
   eval decimal_conv (row_env (XText ''abc'') (XText ''100'')) (tolerance_formula 0.02 2) = XError \<and>
   XError \<noteq> XNum 0"
  by (simp add: emitted_for_simple num_q_def grading_formula_def get_type_def default_formula_def
      tolerance_formula_def row_env_def xl_arith_def read_simps)

text \<open>
  Claim C3, as amended. For an answer record at position \<open>i\<close> that has no tolerance and
  whose type is not a choice type, \<^verbatim>\<open>setup_grading\<close> writes into grading row \<open>2 + i\<close> the
  reference to the student's answer cell in column J, the correct answer in column K and the
  default formula in column L. The formula yields 1 when the correct answer and the student's
  answer both read as numbers \<open>c\<close> and \<open>s\<close> with \<open>\<bar>c - s\<bar> \<le> 0.01\<close>, 0 when both read as
  numbers and the difference is larger, and the error value, neither 1 nor 0, when either does
  not read as a number.
\<close>

theorem default_grading:
  assumes "i < length (answer_cells e)"
    and "rec_tolerance (answer_cells e ! i) = None"
    and "get_type (answer_cells e ! i) \<notin> set [''truefalse'', ''multiplechoice'', ''dropdown'']"
  shows "value_at (solution_sheet (setup_grading e)) (2 + i) 10 =
           Some (PStr (''=Student!'' @ cell_address (answer_cells e ! i))) \<and>
         value_at (solution_sheet (setup_grading e)) (2 + i) 11 =
           (case correct_answer (answer_cells e ! i) of
              None \<Rightarrow> value_at (solution_sheet e) (2 + i) 11
            | Some a \<Rightarrow> Some (PStr a)) \<and>
         value_at (solution_sheet (setup_grading e)) (2 + i) 12 =
           Some (PFormula (default_formula (2 + i))) \<and>
         eval cv env (default_formula (2 + i)) =
           (case xl_VALUE cv (env ''K'' (2 + i)) of
              XNum c \<Rightarrow> (case xl_VALUE cv (env ''J'' (2 + i)) of
                           XNum s \<Rightarrow> XNum (if \<bar>c - s\<bar> \<le> 0.01 then 1 else 0)
                         | _ \<Rightarrow> XError)
            | _ \<Rightarrow> XError)"
proof -
  have "grading_formula (answer_cells e ! i) (2 + i) = default_formula (2 + i)"
    using assms(2,3) by (simp add: grading_formula_def Let_def)
  then have "value_at (solution_sheet (setup_grading e)) (2 + i) 12 =
           Some (PFormula (default_formula (2 + i)))"
    using emitted_row(4) [OF assms(1)] by simp
  then show ?thesis
    using emitted_row(2) [OF assms(1)] emitted_answer [OF assms(1)]
      eval_default_formula_any [of cv env "2 + i"]
    by (simp only: simp_thms)
qed

text \<open>
  The claim's examples: correct answer 50.00 and no tolerance; the student answer 50.009
  grades 1 and 50.02 grades 0; the student answer \<open>abc\<close> gives the error value.
\<close>

theorem default_grading_witness:
  "(0::nat) < length (answer_cells (fst (add_simple_question fresh (num_q ''50.00'' None) 1))) \<and>
   rec_tolerance (answer_cells (fst (add_simple_question fresh (num_q ''50.00'' None) 1)) ! 0) = None \<and>
   get_type (answer_cells (fst (add_simple_question fresh (num_q ''50.00'' None) 1)) ! 0)
     \<notin> set [''truefalse'', ''multiplechoice'', ''dropdown''] \<and>
   value_at (solution_sheet (setup_grading
       (fst (add_simple_question fresh (num_q ''50.00'' None) 1)))) 2 11 =
     Some (PStr ''50.00'') \<and>
   value_at (solution_sheet (setup_grading
       (fst (add_simple_question fresh (num_q ''50.00'' None) 1)))) 2 12 =
     Some (PFormula (default_formula 2)) \<and>
   xl_VALUE decimal_conv (XText ''50.00'') = XNum 50 \<and>
   eval decimal_conv (row_env (XNum 50.009) (XText ''50.00'')) (default_formula 2) = XNum 1 \<and>
   eval decimal_conv (row_env (XNum 50.02) (XText ''50.00'')) (default_formula 2) = XNum 0 \<and>
   eval decimal_conv (row_env (XText ''abc'') (XText ''50.00'')) (default_formula 2) = XError"
  using
    default_grading [where e = "fst (add_simple_question fresh (num_q ''50.00'' None) 1)"
      and i = 0 and cv = decimal_conv and env = "row_env (XNum 50.009) (XText ''50.00'')"]
    default_grading [where e = "fst (add_simple_question fresh (num_q ''50.00'' None) 1)"
      and i = 0 and cv = decimal_conv and env = "row_env (XNum 50.02) (XText ''50.00'')"]
    default_grading [where e = "fst (add_simple_question fresh (num_q ''50.00'' None) 1)"
      and i = 0 and cv = decimal_conv and env = "row_env (XText ''abc'') (XText ''50.00'')"]
  by (simp add: num_q_def get_type_def read_simps row_env_def)

text \<open>
  Against C3 as stated, on two records of its domain. For the numerical question with correct
  answer 50.00 and no tolerance, the student answer \<open>abc\<close> yields the error value where the
  claim says 0. For a sub-question whose answer is the text \<open>Paris\<close>, no student answer is
  graded 1 or 0: with the student answer 5 the formula yields the error value.
\<close>

theorem default_grading_counterexample:
  "rec_tolerance (answer_cells (fst (add_simple_question fresh (num_q ''50.00'' None) 1)) ! 0) = None \<and>
   get_type (answer_cells (fst (add_simple_question fresh (num_q ''50.00'' None) 1)) ! 0) =
     ''numerical'' \<and>
   value_at (solution_sheet (setup_grading
       (fst (add_simple_question fresh (num_q ''50.00'' None) 1)))) 2 12 =
     Some (PFormula (default_formula 2)) \<and>
   eval decimal_conv (row_env (XText ''abc'') (XText ''50.00'')) (default_formula 2) = XError \<and>
   rec_tolerance (answer_cells (fst (add_subquestion headed sub_paris 1)) ! 0) = None \<and>
   get_type (answer_cells (fst (add_subquestion headed sub_paris 1)) ! 0) = ''numerical'' \<and>
   correct_answer (answer_cells (fst (add_subquestion headed sub_paris 1)) ! 0) = Some ''Paris'' \<and>
   value_at (solution_sheet (setup_grading (fst (add_subquestion headed sub_paris 1)))) 2 12 =
     Some (PFormula (default_formula 2)) \<and>
   eval decimal_conv (row_env (XNum 5) (XText ''Paris'')) (default_formula 2) = XError \<and>
   XError \<noteq> XNum 0"
  by (simp add: emitted_for_simple emitted_for_sub num_q_def sub_paris_def grading_formula_def
      get_type_def default_formula_def row_env_def xl_arith_def read_simps)

text \<open>
  Claim C10. The record \<^verbatim>\<open>add_subquestion\<close> appends has no type, so \<^verbatim>\<open>setup_grading\<close> takes
  it as numerical: the formula written for it is the tolerance formula when the sub-question
  has a tolerance that is not zero and the default formula otherwise, and never the text
  comparison, whatever the sub-question's answer is.
\<close>

theorem subquestion_grading:
  "rec_type (last (answer_cells (fst (add_subquestion e sq n)))) = None \<and>
   get_type (last (answer_cells (fst (add_subquestion e sq n)))) = ''numerical'' \<and>
   value_at (solution_sheet (setup_grading (fst (add_subquestion e sq n))))
      (2 + length (answer_cells e)) 12 =
     Some (PFormula
       (case sub_tolerance sq of
          None \<Rightarrow> default_formula (2 + length (answer_cells e))
        | Some tol \<Rightarrow> if tol \<noteq> 0 then tolerance_formula tol (2 + length (answer_cells e))
                      else default_formula (2 + length (answer_cells e)))) \<and>
   value_at (solution_sheet (setup_grading (fst (add_subquestion e sq n))))
      (2 + length (answer_cells e)) 12 \<noteq>
     Some (PFormula (text_formula (2 + length (answer_cells e))))"
proof -
  let ?e = "fst (add_subquestion e sq n)" and ?i = "length (answer_cells e)"
  have "?i < length (answer_cells ?e)" by simp
  then have "value_at (solution_sheet (setup_grading ?e)) (2 + ?i) 12 =
     Some (PFormula (grading_formula (answer_cells ?e ! ?i) (2 + ?i)))"
    by (rule emitted_row(4))
  moreover have "grading_formula (answer_cells ?e ! ?i) (2 + ?i) =
       (case sub_tolerance sq of
          None \<Rightarrow> default_formula (2 + ?i)
        | Some tol \<Rightarrow> if tol \<noteq> 0 then tolerance_formula tol (2 + ?i)
                      else default_formula (2 + ?i))"
    by (simp add: grading_formula_def get_type_def Let_def split: option.splits)
  ultimately show ?thesis
    by (simp add: formulas_distinct get_type_def split: option.splits)
qed

theorem subquestion_grading_witness:
  "rec_type (last (answer_cells (fst (add_subquestion headed sub_a 1)))) = None \<and>
   value_at (solution_sheet (setup_grading (fst (add_subquestion headed sub_a 1)))) 2 12 =
     Some (PFormula (tolerance_formula 0.02 2)) \<and>
   value_at (solution_sheet (setup_grading (fst (add_subquestion headed sub_b 1)))) 2 12 =
     Some (PFormula (default_formula 2)) \<and>
   value_at (solution_sheet (setup_grading (fst (add_subquestion headed sub_b 1)))) 2 12 \<noteq>
     Some (PFormula (text_formula 2))"
  using subquestion_grading [of headed sub_a 1] subquestion_grading [of headed sub_b 1]
  by (simp add: sub_a_def sub_b_def formulas_distinct)

subsection \<open>The registry\<close>

text \<open>
  Claim C4. After \<^verbatim>\<open>build_professional_workbook\<close> on any list of questions, every entry of
  the registry has an address that names an answer input cell of the student sheet (empty
  string, thin border, centred, answer fill), the rows of the recorded addresses increase
  strictly along the registry, and the student sheet is not protected, so the cells can be
  edited.
\<close>

theorem registry_names_input_cells:
  "(\<forall>a \<in> set (answer_cells (snd (build_professional_workbook qs f t))).
      is_answer_input (cells (final_sheet (snd (build_professional_workbook qs f t)))
         (coordinate (cell_address a)))) \<and>
   sorted_wrt (<) (map (address_row \<circ> cell_address)
      (answer_cells (snd (build_professional_workbook qs f t)))) \<and>
   \<not> protection_sheet (final_sheet (snd (build_professional_workbook qs f t)))"
  using registered_ok_build [of t qs]
  by (simp add: build_fields registered_ok_def)

theorem registry_names_input_cells_witness:
  "map cell_address (answer_cells (snd (build_professional_workbook
      [tf_q, table_q, num_q ''50.00'' None] ''exam.xlsx'' ''Midterm''))) =
     [''C4'', ''D14'', ''D17'', ''C21''] \<and>
   is_answer_input (cells (final_sheet (snd (build_professional_workbook
      [tf_q, table_q, num_q ''50.00'' None] ''exam.xlsx'' ''Midterm''))) (4, 3)) \<and>
   is_answer_input (cells (final_sheet (snd (build_professional_workbook
      [tf_q, table_q, num_q ''50.00'' None] ''exam.xlsx'' ''Midterm''))) (14, 4)) \<and>
   is_answer_input (cells (final_sheet (snd (build_professional_workbook
      [tf_q, table_q, num_q ''50.00'' None] ''exam.xlsx'' ''Midterm''))) (17, 4)) \<and>
   is_answer_input (cells (final_sheet (snd (build_professional_workbook
      [tf_q, table_q, num_q ''50.00'' None] ''exam.xlsx'' ''Midterm''))) (21, 3)) \<and>
   sorted_wrt (<) [4, 14, 17, 21 :: nat] \<and>
   \<not> protection_sheet (final_sheet (snd (build_professional_workbook
      [tf_q, table_q, num_q ''50.00'' None] ''exam.xlsx'' ''Midterm'')))"
  using registry_names_input_cells
    [of "[tf_q, table_q, num_q ''50.00'' None]" "''exam.xlsx''" "''Midterm''"]
  by (simp add: example_registry example_addresses)

text \<open>
  Claim C5. In the workbook built from a list of questions, numbered from 1 in order, the
  identifiers of the registry are, question by question: for a data-table or multi-part
  question number \<open>n\<close>, the text of \<open>n\<close> followed by the part label, once for each of its
  sub-questions in order; for any other question, the text of \<open>n\<close> alone.
\<close>

theorem question_ids_of_build:
  "map question_id (answer_cells (snd (build_professional_workbook qs f t))) =
   expected_question_ids qs 1"
  by (simp add: build_fields ids_add_questions)

theorem question_ids_of_build_witness:
  "map question_id (answer_cells (snd (build_professional_workbook
      [tf_q, table_q, num_q ''50.00'' None] ''exam.xlsx'' ''Midterm''))) =
     [''1'', ''2A'', ''2B'', ''3'']"
  using question_ids_of_build
    [of "[tf_q, table_q, num_q ''50.00'' None]" "''exam.xlsx''" "''Midterm''"]
  by (simp add: tf_q_def table_q_def num_q_def sub_a_def sub_b_def str_int_def str_nat.simps
      digit_char_def)

text \<open>
  Claim C9. Two builds from the same list of questions give the same sequence of answer
  records as to identifier, correct answer and tolerance, in the same order, whatever the
  file names and the titles of the two builds are. The same holds for the loop over the
  questions from any two engine states whose registries agree in these three fields, wherever
  their cursors stand and whatever their sheets hold.
\<close>

theorem build_deterministic:
  "map record_key (answer_cells (snd (build_professional_workbook qs f1 t1))) =
   map record_key (answer_cells (snd (build_professional_workbook qs f2 t2))) \<and>
   (map record_key (answer_cells e1) = map record_key (answer_cells e2) \<longrightarrow>
    map record_key (answer_cells (add_questions e1 qs n)) =
    map record_key (answer_cells (add_questions e2 qs n)))"
proof (intro conjI impI)
  show "map record_key (answer_cells (snd (build_professional_workbook qs f1 t1))) =
        map record_key (answer_cells (snd (build_professional_workbook qs f2 t2)))"
    unfolding build_fields by (rule keys_add_questions_indep) simp
next
  assume "map record_key (answer_cells e1) = map record_key (answer_cells e2)"
  then show "map record_key (answer_cells (add_questions e1 qs n)) =
             map record_key (answer_cells (add_questions e2 qs n))"
    by (rule keys_add_questions_indep)
qed

text \<open>
  Two builds of the same three questions under different file names and titles; and the
  loop over one question from the engine at the start of a build and from the engine two
  rows further down, where the addresses differ and the three fields agree.
\<close>

theorem build_deterministic_witness:
  "map record_key (answer_cells (snd (build_professional_workbook
      [tf_q, table_q, num_q ''50.00'' None] ''first.xlsx'' ''Midterm''))) =
   map record_key (answer_cells (snd (build_professional_workbook
      [tf_q, table_q, num_q ''50.00'' None] ''second.xlsx'' ''Final''))) \<and>
   map record_key (answer_cells fresh) = map record_key (answer_cells headed) \<and>
   map record_key (answer_cells (add_questions fresh [tf_q] 1)) =
   map record_key (answer_cells (add_questions headed [tf_q] 1)) \<and>
   map cell_address (answer_cells (add_questions fresh [tf_q] 1)) = [''C4''] \<and>
   map cell_address (answer_cells (add_questions headed [tf_q] 1)) = [''C6'']"
  using build_deterministic
    [of "[tf_q, table_q, num_q ''50.00'' None]" "''first.xlsx''" "''Midterm''"
      "''second.xlsx''" "''Final''" fresh headed 1]
    build_deterministic
    [of "[tf_q]" "''first.xlsx''" "''Midterm''" "''second.xlsx''" "''Final''" fresh headed 1]
  by (simp add: add_question_def tf_q_def column_letter_3 str_nat.simps digit_char_def)

subsection \<open>Rendering\<close>

text \<open>
  Claim C6, as amended. For a data table with N headers and M data rows, \<^verbatim>\<open>add_data_table\<close>
  leaves the registry as it was, moves the cursor past one blank row, the M + 1 table rows and
  one more blank row, and changes exactly these cells of the student sheet: in the header row
  the N cells from column 3 on, each with its header as value and the header format; in the
  data row of each row of the table as many cells from column 3 on as that row has values,
  each with the table format and, unless the value is \<^verbatim>\<open>None\<close>, the value. A data row so has
  N populated columns when the row has N values, which the code does not check.
\<close>

theorem data_table_cells:
  "answer_cells (add_data_table e (Some dt)) = answer_cells e \<and>
   current_row (add_data_table e (Some dt)) = current_row e + 1 + (length (rows dt) + 1) + 1 \<and>
   cells (final_sheet (add_data_table e (Some dt))) (r, k) =
     (if r = current_row e + 1 \<and> 3 \<le> k \<and> k < 3 + length (headers dt)
      then Some (header_cell ((cell_at (final_sheet e) (r, k))
                   \<lparr>cell_value := Some (PStr (headers dt ! (k - 3)))\<rparr>))
      else if current_row e + 2 \<le> r \<and> r < current_row e + 2 + length (rows dt) \<and>
              3 \<le> k \<and> k < 3 + length (rows dt ! (r - (current_row e + 2)))
      then Some (table_cell (bind_value (rows dt ! (r - (current_row e + 2)) ! (k - 3))
                   (cell_at (final_sheet e) (r, k))))
      else cells (final_sheet e) (r, k))"
  by (simp add: cells_add_data_table del: add_data_table.simps)

theorem data_table_cells_witness:
  "answer_cells (add_data_table headed (Some gdp_table)) = [] \<and>
   current_row headed = 4 \<and>
   current_row (add_data_table headed (Some gdp_table)) = 9 \<and>
   cells (final_sheet (add_data_table headed (Some gdp_table))) (5, 4) =
     Some \<lparr>cell_value = Some (PStr ''GDP''), cell_font = bold_font, cell_alignment = center_align,
           cell_border = thin_border, cell_fill = header_fill\<rparr> \<and>
   cells (final_sheet (add_data_table headed (Some gdp_table))) (7, 3) =
     Some \<lparr>cell_value = Some (PInt 2021), cell_font = default_font, cell_alignment = center_align,
           cell_border = thin_border, cell_fill = table_fill\<rparr> \<and>
   cells (final_sheet (add_data_table headed (Some gdp_table))) (7, 5) =
     cells (final_sheet headed) (7, 5) \<and>
   cells (final_sheet (add_data_table headed (Some gdp_table))) (8, 3) =
     cells (final_sheet headed) (8, 3)"
  using data_table_cells [of headed gdp_table 5 4] data_table_cells [of headed gdp_table 7 3]
    data_table_cells [of headed gdp_table 7 5] data_table_cells [of headed gdp_table 8 3]
  by (simp add: gdp_table_def cells_headed cell_at_def header_cell_def table_cell_def
      bind_value_def del: add_data_table.simps)

text \<open>
  Against C6 as stated: a table with two headers and the one data row \<open>[2020]\<close>, added
  below the first question header. Its data row is row 6; the cell in column 3 holds 2020 in
  the table format, and the cell in column 4 is the blank white cell it was before: the row
  has one populated column, not two.
\<close>

theorem data_table_cells_counterexample:
  "length (headers ragged_table) = 2 \<and> length (rows ragged_table) = 1 \<and>
   cells (final_sheet (add_data_table headed (Some ragged_table))) (6, 3) =
     Some \<lparr>cell_value = Some (PInt 2020), cell_font = default_font,
           cell_alignment = center_align, cell_border = thin_border, cell_fill = table_fill\<rparr> \<and>
   cells (final_sheet (add_data_table headed (Some ragged_table))) (6, 4) =
     Some \<lparr>cell_value = None, cell_font = default_font,
           cell_alignment = default_align, cell_border = no_border, cell_fill = white_fill\<rparr>"
  by (simp add: cells_add_data_table ragged_table_def cells_headed cell_at_def
      table_cell_def bind_value_def del: add_data_table.simps)

text \<open>
  Claim C7, as amended. \<^verbatim>\<open>add_simple_question\<close> leaves its answer cell, in column 3 two rows
  below the cursor, as an answer input cell, and returns its address. For a true/false
  question it attaches to that cell a list validation with the formula \<^verbatim>\<open>"True,False"\<close>. For
  a dropdown or multiple-choice question whose options are a non-empty list it attaches a list
  validation whose formula is, between two double quotes, the options joined by commas, each
  with its double quotes replaced by single quotes; the text between the quotes has no double
  quote, and read at the commas it gives back the options (so replaced) when no option has a
  comma. A dropdown or multiple-choice question without options gets no validation.
\<close>

theorem choice_validation:
  "(qtype q = ''truefalse'' \<longrightarrow>
      data_validations (final_sheet (fst (add_simple_question e q n))) =
      data_validations (final_sheet e) @
        [list_validation ([CHR 0x22] @ ''True,False'' @ [CHR 0x22]) (current_row e + 2, 3)]) \<and>
   (qtype q \<in> set [''dropdown'', ''multiplechoice''] \<and> options q = Some opts \<and> opts \<noteq> [] \<longrightarrow>
      data_validations (final_sheet (fst (add_simple_question e q n))) =
      data_validations (final_sheet e) @
        [list_validation
           ([CHR 0x22] @ join '','' (map (replace_char (CHR 0x22) (CHR 0x27)) opts) @ [CHR 0x22])
           (current_row e + 2, 3)] \<and>
      CHR 0x22 \<notin> set (join '','' (map (replace_char (CHR 0x22) (CHR 0x27)) opts)) \<and>
      ((\<forall>x \<in> set opts. CHR '','' \<notin> set x) \<longrightarrow>
         split_on (CHR '','') (join '','' (map (replace_char (CHR 0x22) (CHR 0x27)) opts)) =
         map (replace_char (CHR 0x22) (CHR 0x27)) opts)) \<and>
   (qtype q \<in> set [''dropdown'', ''multiplechoice''] \<and> \<not> truthy_list (options q) \<longrightarrow>
      data_validations (final_sheet (fst (add_simple_question e q n))) =
      data_validations (final_sheet e)) \<and>
   coordinate (snd (add_simple_question e q n)) = (current_row e + 2, 3) \<and>
   is_answer_input (cells (final_sheet (fst (add_simple_question e q n))) (current_row e + 2, 3))"
proof (intro conjI impI)
  assume "qtype q = ''truefalse''"
  then show "data_validations (final_sheet (fst (add_simple_question e q n))) =
      data_validations (final_sheet e) @
        [list_validation ([CHR 0x22] @ ''True,False'' @ [CHR 0x22]) (current_row e + 2, 3)]"
    by (simp add: validations_add_simple_question)
next
  assume "qtype q \<in> set [''dropdown'', ''multiplechoice''] \<and> options q = Some opts \<and> opts \<noteq> []"
  then show "data_validations (final_sheet (fst (add_simple_question e q n))) =
      data_validations (final_sheet e) @
        [list_validation
           ([CHR 0x22] @ join '','' (map (replace_char (CHR 0x22) (CHR 0x27)) opts) @ [CHR 0x22])
           (current_row e + 2, 3)]"
    by (simp add: validations_add_simple_question options_formula_def Let_def)
next
  show "CHR 0x22 \<notin> set (join '','' (map (replace_char (CHR 0x22) (CHR 0x27)) opts))"
    by (rule no_quote_in_options)
next
  assume "\<forall>x \<in> set opts. CHR '','' \<notin> set x"
    and "qtype q \<in> set [''dropdown'', ''multiplechoice''] \<and> options q = Some opts \<and> opts \<noteq> []"
  then show "split_on (CHR '','') (join '','' (map (replace_char (CHR 0x22) (CHR 0x27)) opts)) =
         map (replace_char (CHR 0x22) (CHR 0x27)) opts"
    by (intro split_on_join) (auto simp: comma_free_replace)
next
  assume "qtype q \<in> set [''dropdown'', ''multiplechoice''] \<and> \<not> truthy_list (options q)"
  then show "data_validations (final_sheet (fst (add_simple_question e q n))) =
      data_validations (final_sheet e)"
    by (auto simp: validations_add_simple_question)
next
  show "coordinate (snd (add_simple_question e q n)) = (current_row e + 2, 3)"
    using coordinate_C [of "current_row e + 2"]
    by (simp add: add_simple_question_def Let_def add_spacing_def)
next
  show "is_answer_input (cells (final_sheet (fst (add_simple_question e q n))) (current_row e + 2, 3))"
    by (simp add: cells_add_simple_question is_answer_input_def input_cell_def)
qed

theorem choice_validation_witness:
  "qtype tf_q = ''truefalse'' \<and>
   data_validations (final_sheet (fst (add_simple_question fresh tf_q 1))) =
     [list_validation [CHR 0x22, CHR ''T'', CHR ''r'', CHR ''u'', CHR ''e'', CHR '','',
        CHR ''F'', CHR ''a'', CHR ''l'', CHR ''s'', CHR ''e'', CHR 0x22] (4, 3)] \<and>
   qtype mc_q \<in> set [''dropdown'', ''multiplechoice''] \<and>
   options mc_q = Some [''Paris'', ''Rome'', [CHR 0x22, CHR ''X'', CHR 0x22]] \<and>
   data_validations (final_sheet (fst (add_simple_question fresh mc_q 1))) =
     [list_validation ([CHR 0x22] @ ''Paris,Rome,'' @ [CHR 0x27, CHR ''X'', CHR 0x27, CHR 0x22])
        (4, 3)] \<and>
   split_on (CHR '','') (''Paris,Rome,'' @ [CHR 0x27, CHR ''X'', CHR 0x27]) =
     [''Paris'', ''Rome'', [CHR 0x27, CHR ''X'', CHR 0x27]] \<and>
   is_answer_input (cells (final_sheet (fst (add_simple_question fresh mc_q 1))) (4, 3))"
  using choice_validation [where q = tf_q and e = fresh and n = 1 and opts = "[]"]
    choice_validation [where q = mc_q and e = fresh and n = 1
      and opts = "[''Paris'', ''Rome'', [CHR 0x22, CHR ''X'', CHR 0x22]]"]
  by (simp add: tf_q_def mc_q_def replace_char_def)

text \<open>
  Against C7 as stated: a multiple-choice question without options is rendered with no
  validation on the sheet.
\<close>

theorem choice_validation_counterexample:
  "qtype mc_no_options = ''multiplechoice'' \<and>
   data_validations (final_sheet (fst (add_simple_question fresh mc_no_options 1))) = []"
  by (simp add: validations_add_simple_question mc_no_options_def)

text \<open>
  Claim C8, as amended. \<^verbatim>\<open>add_question_header\<close>, \<^verbatim>\<open>add_data_table\<close> on a table,
  \<^verbatim>\<open>add_subquestion\<close> and \<^verbatim>\<open>add_simple_question\<close> each leave the cursor strictly greater than
  they found it; \<^verbatim>\<open>add_data_table\<close> without a table returns the engine as it was, cursor
  included. Each operation changes cells and row heights of the student sheet only in rows
  from the cursor it found up to, and not including, the cursor it leaves, so no two
  operations in sequence write to the same row.
\<close>

theorem cursor_advances:
  "current_row e < current_row (fst (add_question_header e n t)) \<and>
   current_row e < current_row (add_data_table e (Some dt)) \<and>
   current_row e < current_row (fst (add_subquestion e sq n)) \<and>
   current_row e < current_row (fst (add_simple_question e q n)) \<and>
   add_data_table e None = e \<and>
   same_outside e (fst (add_question_header e n t)) r k \<and>
   same_outside e (add_data_table e dto) r k \<and>
   same_outside e (fst (add_subquestion e sq n)) r k \<and>
   same_outside e (fst (add_simple_question e q n)) r k"
  unfolding same_outside_def
  using frame_add_question_header [of r e n t k] frame_add_data_table [of r e dto k]
    frame_add_subquestion [of r e sq n k] frame_add_simple_question [of r e q n k]
  by (auto simp del: add_data_table.simps(2))

theorem cursor_advances_witness:
  "current_row fresh < current_row (fst (add_question_header fresh 1 ''Q'')) \<and>
   current_row headed < current_row (add_data_table headed (Some gdp_table)) \<and>
   current_row headed < current_row (fst (add_subquestion headed sub_a 1)) \<and>
   current_row fresh < current_row (fst (add_simple_question fresh tf_q 1)) \<and>
   (1::nat) < current_row fresh \<and> (3::nat) < current_row headed \<and>
   cells (final_sheet (fst (add_question_header fresh 1 ''Q''))) (1, 2) =
     cells (final_sheet fresh) (1, 2) \<and>
   cells (final_sheet (add_data_table headed (Some gdp_table))) (3, 2) =
     cells (final_sheet headed) (3, 2) \<and>
   cells (final_sheet (fst (add_subquestion headed sub_a 1))) (3, 2) =
     cells (final_sheet headed) (3, 2) \<and>
   cells (final_sheet (fst (add_simple_question fresh tf_q 1))) (1, 2) =
     cells (final_sheet fresh) (1, 2)"
  using cursor_advances [where e = fresh and n = 1 and t = "''Q''" and dt = gdp_table
      and dto = "Some gdp_table" and sq = sub_a and q = tf_q and r = 1 and k = 2]
    cursor_advances [where e = headed and n = 1 and t = "''Q''" and dt = gdp_table
      and dto = "Some gdp_table" and sq = sub_a and q = tf_q and r = 3 and k = 2]
  by (simp add: same_outside_def del: add_data_table.simps)

text \<open>
  Against C8 as stated: \<^verbatim>\<open>add_data_table\<close> without a table leaves the cursor where it was.
\<close>

theorem cursor_advances_counterexample:
  "\<not> current_row headed < current_row (add_data_table headed None)"
  by simp

end
